theory Spec2Isabelle
  imports Complex_Main "HOL-Library.Multiset" "HOL-Library.Word" "HOL-Library.Char_ord" "HOL-Library.List_Lexorder"
begin

section \<open>Backup rotation (database/backup.py)\<close>

text \<open>
  The backup directory is modelled by what \<open>os.path.exists\<close>, \<open>os.listdir\<close> and
  \<open>os.path.getmtime\<close> report: whether it exists and its entries (file name and
  modification time) in listing order. File times are Python floats; they are only
  compared and shifted by whole seconds, and are taken as reals. \<open>undeletable\<close> names
  the files on which \<open>os.remove\<close> raises (the source catches that and goes on).
\<close>

record backup_fs =
  dir_exists :: bool
  entries :: "(string \<times> real) list"
  undeletable :: "string list"

text \<open>The two optional keys of \<open>config['database']\<close> that the pruning reads.\<close>

record db_config =
  backup_retention_days :: "int option"
  max_backup_files :: "int option"

text \<open>\<open>if not v: v = config['database'].get(key, d)\<close> for an optional integer argument:
  \<open>None\<close> and \<open>0\<close> are both falsy.\<close>

definition arg_or_config :: "int option \<Rightarrow> int option \<Rightarrow> int \<Rightarrow> int" where
  "arg_or_config arg configured d =
     (case arg of
        None \<Rightarrow> (case configured of None \<Rightarrow> d | Some c \<Rightarrow> c)
      | Some v \<Rightarrow> (if v = 0 then (case configured of None \<Rightarrow> d | Some c \<Rightarrow> c) else v))"

definition startswith :: "string \<Rightarrow> string \<Rightarrow> bool" where
  "startswith s p = (take (length p) s = p)"

definition endswith :: "string \<Rightarrow> string \<Rightarrow> bool" where
  "endswith s p = (length p \<le> length s \<and> drop (length s - length p) s = p)"

definition is_backup_name :: "string \<Rightarrow> bool" where
  "is_backup_name filename = (startswith filename ''backup_'' \<and> endswith filename ''.db'')"

text \<open>\<open>try: os.remove(file_path) except Exception: print(...)\<close>: a file that cannot be
  removed, or that is no longer there, leaves the directory as it is.\<close>

definition os_remove :: "string \<Rightarrow> backup_fs \<Rightarrow> backup_fs" where
  "os_remove f fs =
     (if f \<in> set (undeletable fs) then fs
      else fs\<lparr>entries := filter (\<lambda>e. fst e \<noteq> f) (entries fs)\<rparr>)"

fun remove_all :: "string list \<Rightarrow> backup_fs \<Rightarrow> backup_fs" where
  "remove_all [] fs = fs"
| "remove_all (f # rest) fs = remove_all rest (os_remove f fs)"

text \<open>\<open>backups.sort(key=lambda x: x[1], reverse=True)\<close>: a stable sort, newest first.\<close>

definition sort_newest_first :: "(string \<times> real) list \<Rightarrow> (string \<times> real) list" where
  "sort_newest_first backups = sort_key (\<lambda>b. - snd b) backups"

definition clean_old_backups ::
  "db_config \<Rightarrow> real \<Rightarrow> backup_fs \<Rightarrow> int option \<Rightarrow> int option \<Rightarrow> backup_fs" where
  "clean_old_backups config now fs max_days_arg max_files_arg =
     (let max_days = arg_or_config max_days_arg (backup_retention_days config) 30;
          max_files = arg_or_config max_files_arg (max_backup_files config) 10
      in if \<not> dir_exists fs then fs
         else
           let backups = filter (\<lambda>e. is_backup_name (fst e)) (entries fs);
               fs1 = (if max_days > 0
                      then remove_all
                             (map fst (filter (\<lambda>b. snd b < now - real_of_int (max_days * 86400)) backups))
                             fs
                      else fs);
               fs2 = (if max_files > 0
                      then remove_all (map fst (drop (nat max_files) (sort_newest_first backups))) fs1
                      else fs1)
           in fs2)"

text \<open>
  What \<open>create_backup\<close> meets outside the directory: whether the database file exists,
  the formatted \<open>datetime.now()\<close>, the clock read by the pruning, whether
  \<open>shutil.copy2\<close> succeeds, and the modification time of the database file when it is
  copied (\<open>copy2\<close> carries it over to the copy). The \<open>VACUUM\<close> attempt is best effort
  and changes no branch, so it does not appear.
\<close>

record backup_env =
  db_exists :: bool
  timestamp :: string
  clock :: real
  copy_ok :: bool
  src_mtime :: real

definition copy2 :: "string \<Rightarrow> real \<Rightarrow> backup_fs \<Rightarrow> backup_fs" where
  "copy2 name t fs =
     (if name \<in> fst ` set (entries fs)
      then fs\<lparr>entries := map (\<lambda>e. if fst e = name then (name, t) else e) (entries fs)\<rparr>
      else fs\<lparr>entries := entries fs @ [(name, t)]\<rparr>)"

text \<open>\<open>f"backup_{timestamp}.db"\<close>\<close>

definition backup_filename :: "string \<Rightarrow> string" where
  "backup_filename ts = ''backup_'' @ ts @ ''.db''"

definition create_backup :: "db_config \<Rightarrow> backup_env \<Rightarrow> backup_fs \<Rightarrow> string option \<times> backup_fs" where
  "create_backup config env fs =
     (if \<not> db_exists env then (None, fs)
      else
        let fs0 = (if dir_exists fs then fs else fs\<lparr>dir_exists := True, entries := []\<rparr>);
            name = backup_filename (timestamp env)
        in if \<not> copy_ok env then (None, fs0)
           else (Some name,
                 clean_old_backups config (clock env) (copy2 name (src_mtime env) fs0) None None))"

text \<open>A directory of twelve daily backups, the run of the thirteenth day, and a
  configuration that sets neither retention key.\<close>

definition twelve_backups :: backup_fs where
  "twelve_backups = \<lparr>dir_exists = True,
     entries = [(''backup_20240101_030000.db'', 1704078000),
                (''backup_20240102_030000.db'', 1704164400),
                (''backup_20240103_030000.db'', 1704250800),
                (''backup_20240104_030000.db'', 1704337200),
                (''backup_20240105_030000.db'', 1704423600),
                (''backup_20240106_030000.db'', 1704510000),
                (''backup_20240107_030000.db'', 1704596400),
                (''backup_20240108_030000.db'', 1704682800),
                (''backup_20240109_030000.db'', 1704769200),
                (''backup_20240110_030000.db'', 1704855600),
                (''backup_20240111_030000.db'', 1704942000),
                (''backup_20240112_030000.db'', 1705028400)],
     undeletable = []\<rparr>"

definition thirteenth_day :: backup_env where
  "thirteenth_day = \<lparr>db_exists = True, timestamp = ''20240113_030000'', clock = 1705114801,
     copy_ok = True, src_mtime = 1705114800\<rparr>"

definition default_db_config :: db_config where
  "default_db_config = \<lparr>backup_retention_days = None, max_backup_files = None\<rparr>"

text \<open>A file is within the age threshold when the age rule, under the configured
  retention (30 days when unset), would not remove it.\<close>

definition within_age :: "db_config \<Rightarrow> real \<Rightarrow> real \<Rightarrow> bool" where
  "within_age config now t =
     (let max_days = arg_or_config None (backup_retention_days config) 30
      in \<not> (max_days > 0 \<and> t < now - real_of_int (max_days * 86400)))"






section \<open>Schema validation (database/schema_validator.py, database/db_manager.py)\<close>

text \<open>
  The validator reads the database through three statements only. The catalogue holds
  what they read: the rows of \<open>sqlite_master\<close> as (type, name, tbl_name), the rows of
  \<open>PRAGMA table_info\<close> per table as (column name, column type), and the statements on
  which the driver raises \<open>sqlite3.Error\<close>.
\<close>

datatype catalog_query = ListTables | TableInfo string | ListIndices string

record catalog =
  master :: "(string \<times> string \<times> string) list"
  table_info :: "(string \<times> (string \<times> string) list) list"
  failing :: "catalog_query list"

text \<open>\<open>name LIKE 'sqlite_%'\<close>: the letters match in either case, \<open>_\<close> stands for any
  one character and \<open>%\<close> for any rest.\<close>

fun like_sqlite :: "string \<Rightarrow> bool" where
  "like_sqlite (c1 # c2 # c3 # c4 # c5 # c6 # c7 # rest) =
     ((c1 = CHR ''s'' \<or> c1 = CHR ''S'') \<and> (c2 = CHR ''q'' \<or> c2 = CHR ''Q'')
      \<and> (c3 = CHR ''l'' \<or> c3 = CHR ''L'') \<and> (c4 = CHR ''i'' \<or> c4 = CHR ''I'')
      \<and> (c5 = CHR ''t'' \<or> c5 = CHR ''T'') \<and> (c6 = CHR ''e'' \<or> c6 = CHR ''E''))"
| "like_sqlite short = False"

text \<open>
  \<open>DatabaseManager.execute\<close> on the three statements: the cursor's rows, or \<open>None\<close>
  when the driver raises. The table name is pasted into the statement text, so a name
  with a quote in it is taken to make the statement fail.
\<close>

definition execute_query :: "catalog \<Rightarrow> catalog_query \<Rightarrow> string list option" where
  "execute_query c q =
     (if q \<in> set (failing c) then None
      else (case q of
              ListTables \<Rightarrow>
                Some (map (\<lambda>r. fst (snd r))
                        (filter (\<lambda>r. fst r = ''table'' \<and> \<not> like_sqlite (fst (snd r))) (master c)))
            | TableInfo t \<Rightarrow>
                (if CHR 0x27 \<in> set t then None
                 else Some (case map_of (table_info c) t of None \<Rightarrow> [] | Some cols \<Rightarrow> map fst cols))
            | ListIndices t \<Rightarrow>
                (if CHR 0x27 \<in> set t then None
                 else Some (map (\<lambda>r. fst (snd r))
                              (filter (\<lambda>r. fst r = ''index'' \<and> snd (snd r) = t) (master c))))))"

text \<open>\<open>if cursor: return [...]\<close>, else \<open>return []\<close>. Of the (name, type) pairs of
  \<open>_get_table_columns\<close> the validator uses the names only.\<close>

definition get_existing_tables :: "catalog \<Rightarrow> string list" where
  "get_existing_tables c = (case execute_query c ListTables of None \<Rightarrow> [] | Some rows \<Rightarrow> rows)"

definition get_table_column_names :: "catalog \<Rightarrow> string \<Rightarrow> string list" where
  "get_table_column_names c t = (case execute_query c (TableInfo t) of None \<Rightarrow> [] | Some rows \<Rightarrow> rows)"

definition get_table_indices :: "catalog \<Rightarrow> string \<Rightarrow> string list" where
  "get_table_indices c t = (case execute_query c (ListIndices t) of None \<Rightarrow> [] | Some rows \<Rightarrow> rows)"

definition get_expected_tables :: "(string \<times> (string \<times> string) list) list" where
  "get_expected_tables =
    [(''territorios'',
        [(''id'', ''INTEGER''), (''nome'', ''TEXT''), (''descricao'', ''TEXT''),
         (''ultima_visita'', ''TEXT''), (''data_criacao'', ''TEXT'')]),
     (''ruas'',
        [(''id'', ''INTEGER''), (''territorio_id'', ''INTEGER''), (''nome'', ''TEXT'')]),
     (''imoveis'',
        [(''id'', ''INTEGER''), (''rua_id'', ''INTEGER''), (''numero'', ''TEXT''),
         (''tipo'', ''TEXT''), (''nome'', ''TEXT''), (''total_unidades'', ''INTEGER''),
         (''tipo_portaria'', ''TEXT''), (''tipo_acesso'', ''TEXT''), (''observacoes'', ''TEXT'')]),
     (''unidades'',
        [(''id'', ''INTEGER''), (''imovel_id'', ''INTEGER''), (''numero'', ''TEXT''),
         (''observacoes'', ''TEXT'')]),
     (''saidas_campo'',
        [(''id'', ''INTEGER''), (''nome'', ''TEXT''), (''data'', ''TEXT''),
         (''dia_semana'', ''TEXT''), (''horario'', ''TEXT''), (''dirigente'', ''TEXT''),
         (''data_criacao'', ''TEXT'')]),
     (''designacoes'',
        [(''id'', ''INTEGER''), (''territorio_id'', ''INTEGER''), (''saida_campo_id'', ''INTEGER''),
         (''data_designacao'', ''TEXT''), (''data_devolucao'', ''TEXT''),
         (''responsavel'', ''TEXT''), (''status'', ''TEXT'')]),
     (''atendimentos'',
        [(''id'', ''INTEGER''), (''imovel_id'', ''INTEGER''), (''unidade_id'', ''INTEGER''),
         (''data'', ''TEXT''), (''resultado'', ''TEXT''), (''observacoes'', ''TEXT''),
         (''data_registro'', ''TEXT'')]),
     (''historico_predios_vilas'',
        [(''id'', ''INTEGER''), (''imovel_id'', ''INTEGER''), (''data'', ''TEXT''),
         (''descricao'', ''TEXT''), (''data_registro'', ''TEXT'')]),
     (''designacoes_predios_vilas'',
        [(''id'', ''INTEGER''), (''imovel_id'', ''INTEGER''), (''responsavel'', ''TEXT''),
         (''saida_campo_id'', ''INTEGER''), (''data_designacao'', ''TEXT''),
         (''data_devolucao'', ''TEXT''), (''status'', ''TEXT'')]),
     (''usuarios'',
        [(''id'', ''INTEGER''), (''nome'', ''TEXT''), (''email'', ''TEXT''),
         (''senha_hash'', ''TEXT''), (''nivel_permissao'', ''INTEGER''),
         (''ativo'', ''INTEGER''), (''data_criacao'', ''TEXT'')]),
     (''log_atividades'',
        [(''id'', ''INTEGER''), (''usuario_id'', ''INTEGER''), (''tipo_acao'', ''TEXT''),
         (''descricao'', ''TEXT''), (''data_hora'', ''TEXT''), (''entidade'', ''TEXT''),
         (''entidade_id'', ''INTEGER'')]),
     (''notificacoes'',
        [(''id'', ''INTEGER''), (''usuario_id'', ''INTEGER''), (''tipo'', ''TEXT''),
         (''titulo'', ''TEXT''), (''mensagem'', ''TEXT''), (''status'', ''TEXT''),
         (''data_criacao'', ''TEXT''), (''data_leitura'', ''TEXT''), (''link'', ''TEXT''),
         (''entidade'', ''TEXT''), (''entidade_id'', ''INTEGER'')]),
     (''relatorios'',
        [(''id'', ''INTEGER''), (''nome'', ''TEXT''), (''tipo'', ''TEXT''),
         (''filtros'', ''TEXT''), (''usuario_id'', ''INTEGER''), (''data_criacao'', ''TEXT''),
         (''ultima_execucao'', ''TEXT'')])]"

definition indices_map :: "(string \<times> string list) list" where
  "indices_map =
    [(''usuarios'', [''idx_usuarios_email'']),
     (''log_atividades'', [''idx_log_usuario_id'', ''idx_log_data_hora'']),
     (''notificacoes'', [''idx_notificacoes_usuario_id'', ''idx_notificacoes_status'']),
     (''ruas'', [''idx_ruas_territorio_id'']),
     (''imoveis'', [''idx_imoveis_rua_id'']),
     (''unidades'', [''idx_unidades_imovel_id'']),
     (''designacoes'', [''idx_designacoes_territorio_id'', ''idx_designacoes_saida_campo_id'']),
     (''atendimentos'', [''idx_atendimentos_imovel_id'']),
     (''historico_predios_vilas'', [''idx_historico_imovel_id'']),
     (''designacoes_predios_vilas'', [''idx_designacoes_predios_vilas_imovel_id'']),
     (''relatorios'', [''idx_relatorios_usuario_id'', ''idx_relatorios_tipo'',
                       ''idx_relatorios_ultima_execucao''])]"

text \<open>\<open>indices_map.get(table_name, [])\<close>\<close>

definition get_expected_indices :: "string \<Rightarrow> string list" where
  "get_expected_indices table_name =
     (case map_of indices_map table_name of None \<Rightarrow> [] | Some idx \<Rightarrow> idx)"

text \<open>
  A problem is kept as data instead of the formatted message. Python builds the
  missing tables and columns as sets, whose order in the message is not fixed; here they
  are listed in manifest order.
\<close>

datatype problem =
    MissingTables "string list"
  | MissingColumns string "string list"
  | MissingIndices string "string list"

definition missing_tables_problem :: "string list \<Rightarrow> problem list" where
  "missing_tables_problem existing_tables =
     (let missing_tables = filter (\<lambda>t. t \<notin> set existing_tables) (map fst get_expected_tables)
      in if missing_tables = [] then [] else [MissingTables missing_tables])"

definition missing_columns_problem :: "catalog \<Rightarrow> string \<times> (string \<times> string) list \<Rightarrow> problem list" where
  "missing_columns_problem c entry =
     (let existing_column_names = get_table_column_names c (fst entry);
          missing_columns = filter (\<lambda>n. n \<notin> set existing_column_names) (map fst (snd entry))
      in if missing_columns = [] then [] else [MissingColumns (fst entry) missing_columns])"

definition missing_indices_problem :: "catalog \<Rightarrow> string \<Rightarrow> problem list" where
  "missing_indices_problem c table_name =
     (let existing_indices = get_table_indices c table_name;
          missing_indices = filter (\<lambda>idx. idx \<notin> set existing_indices) (get_expected_indices table_name)
      in if missing_indices = [] then [] else [MissingIndices table_name missing_indices])"

text \<open>The column loop runs over \<open>set(expected) & set(existing)\<close>; the order in which
  Python visits that set is not fixed, and manifest order is taken.\<close>

definition validate_schema :: "catalog \<Rightarrow> bool \<times> problem list" where
  "validate_schema c =
     (let existing_tables = get_existing_tables c;
          problemas =
            missing_tables_problem existing_tables
            @ concat (map (missing_columns_problem c)
                        (filter (\<lambda>entry. fst entry \<in> set existing_tables) get_expected_tables))
            @ concat (map (missing_indices_problem c) existing_tables)
      in (problemas = [], problemas))"

text \<open>
  One pass of the loop body of \<open>fix_schema_issues\<close> on a schema file. The files under
  \<open>migrations/\<close> are not part of the sources, so what running one does is a parameter:
  an exception reaches the \<open>except Exception\<close> handler (the file cannot be read, or
  \<open>execute\<close> or \<open>commit\<close> raises something other than \<open>sqlite3.Error\<close>);
  \<open>execute\<close> catches \<open>sqlite3.Error\<close> and returns \<open>None\<close>, the database unchanged;
  or the statement runs and leaves a new catalogue.
\<close>

datatype script_outcome = Raised | ReturnedNone | Ran catalog

datatype action =
    AlreadyCorrect
  | ExecutedFile string
  | ErrorExecuting string
  | AllFixed
  | ProblemsPersist
  | Remaining problem

definition schema_files :: "string list" where
  "schema_files = [''schema_base.sql'', ''schema_usuarios.sql'', ''schema_relatorios.sql'']"

text \<open>The \<open>for schema_file in schema_files\<close> loop: \<open>Inl\<close> is the early
  \<open>return (False, acoes)\<close> of the handler, \<open>Inr\<close> the fall through to the second
  validation. The value \<open>execute\<close> returns is not looked at.\<close>

fun run_schema_files ::
  "(string \<Rightarrow> catalog \<Rightarrow> script_outcome) \<Rightarrow> string list \<Rightarrow> action list \<Rightarrow> catalog
     \<Rightarrow> (action list \<times> catalog) + (action list \<times> catalog)" where
  "run_schema_files run [] acoes c = Inr (acoes, c)"
| "run_schema_files run (schema_file # rest) acoes c =
     (case run schema_file c of
        Raised \<Rightarrow> Inl (acoes @ [ErrorExecuting schema_file], c)
      | ReturnedNone \<Rightarrow> run_schema_files run rest (acoes @ [ExecutedFile schema_file]) c
      | Ran c' \<Rightarrow> run_schema_files run rest (acoes @ [ExecutedFile schema_file]) c')"

definition fix_schema_issues ::
  "(string \<Rightarrow> catalog \<Rightarrow> script_outcome) \<Rightarrow> catalog \<Rightarrow> (bool \<times> action list) \<times> catalog" where
  "fix_schema_issues run c =
     (if fst (validate_schema c) then ((True, [AlreadyCorrect]), c)
      else (case run_schema_files run schema_files [] c of
              Inl (acoes, c') \<Rightarrow> ((False, acoes), c')
            | Inr (acoes, c') \<Rightarrow>
                (let v = validate_schema c'
                 in if fst v then ((True, acoes @ [AllFixed]), c')
                    else ((False, acoes @ [ProblemsPersist] @ map Remaining (snd v)), c'))))"

text \<open>A database with every manifest table, column and index, and beyond them one more
  table, one more column in each table and one more index.\<close>

definition complete_catalog :: catalog where
  "complete_catalog =
     \<lparr>master =
        map (\<lambda>entry. (''table'', fst entry, fst entry)) get_expected_tables
        @ [(''table'', ''sessoes'', ''sessoes''), (''table'', ''sqlite_sequence'', ''sqlite_sequence'')]
        @ concat (map (\<lambda>entry. map (\<lambda>idx. (''index'', idx, fst entry)) (snd entry)) indices_map)
        @ [(''index'', ''idx_sessoes_token'', ''sessoes''), (''index'', ''idx_usuarios_nome'', ''usuarios'')],
      table_info =
        map (\<lambda>entry. (fst entry, snd entry @ [(''ultima_atividade'', ''TEXT'')])) get_expected_tables,
      failing = []\<rparr>"

text \<open>What it is for the schema itself to hold a table, a column of a table, an index
  of a table.\<close>

definition has_table :: "catalog \<Rightarrow> string \<Rightarrow> bool" where
  "has_table c t = list_ex (\<lambda>r. fst r = ''table'' \<and> fst (snd r) = t) (master c)"

definition has_column :: "catalog \<Rightarrow> string \<Rightarrow> string \<Rightarrow> bool" where
  "has_column c t col =
     (case map_of (table_info c) t of None \<Rightarrow> False | Some cols \<Rightarrow> col \<in> set (map fst cols))"

definition has_index :: "catalog \<Rightarrow> string \<Rightarrow> string \<Rightarrow> bool" where
  "has_index c t idx =
     list_ex (\<lambda>r. fst r = ''index'' \<and> fst (snd r) = idx \<and> snd (snd r) = t) (master c)"

text \<open>The same complete database at a moment when the driver rejects the statement
  that lists the tables.\<close>

definition complete_catalog_locked :: catalog where
  "complete_catalog_locked = complete_catalog\<lparr>failing := [ListTables]\<rparr>"

text \<open>An empty database, and a run in which the driver rejects every schema file
  (as it does for a text holding more than one statement).\<close>

definition empty_catalog :: catalog where
  "empty_catalog = \<lparr>master = [], table_info = [], failing = []\<rparr>"

definition every_script_rejected :: "string \<Rightarrow> catalog \<Rightarrow> script_outcome" where
  "every_script_rejected schema_file c = ReturnedNone"

section \<open>Entities and the persistence gateway (models/, database/db_manager.py)\<close>

subsection \<open>Python values, exceptions, the base initialiser\<close>

datatype pyval = PyNone | PyInt int | PyStr string | PyBool bool

datatype py_error = TypeError

datatype 'a outcome = Returned 'a | Raises py_error

definition opt_nat :: "nat option \<Rightarrow> pyval" where
  "opt_nat v = (case v of None \<Rightarrow> PyNone | Some k \<Rightarrow> PyInt (int k))"

definition opt_int :: "int option \<Rightarrow> pyval" where
  "opt_int v = (case v of None \<Rightarrow> PyNone | Some k \<Rightarrow> PyInt k)"

definition opt_str :: "string option \<Rightarrow> pyval" where
  "opt_str v = (case v of None \<Rightarrow> PyNone | Some s \<Rightarrow> PyStr s)"

text \<open>
  \<open>BaseModel.__init__(self, **kwargs)\<close> (models/base\_model.py, line 27) takes keyword
  arguments only: a call that passes a positional argument raises \<open>TypeError\<close> before
  the body runs. \<open>Territorio\<close> and \<open>Rua\<close> call it with keywords; the other models call
  \<open>super().__init__(id)\<close>.
\<close>

definition BaseModel_init :: "pyval list \<Rightarrow> (string \<times> pyval) list \<Rightarrow> unit outcome" where
  "BaseModel_init positional kwargs = (if positional = [] then Returned () else Raises TypeError)"

subsection \<open>The objects\<close>

text \<open>One record per model class, a field per attribute set in \<open>__init__\<close> from an
  argument, typed by the annotation: \<open>str = ""\<close> is a string, a default of \<open>None\<close> an
  option. Field names carry a prefix because several classes share attribute names.\<close>

record unidade =
  un_id :: "nat option"
  un_imovel_id :: "nat option"
  un_numero :: string
  un_observacoes :: "string option"

record imovel =
  im_id :: "nat option"
  im_rua_id :: "nat option"
  im_numero :: string
  im_tipo :: string
  im_nome :: "string option"
  im_total_unidades :: "int option"
  im_tipo_portaria :: "string option"
  im_tipo_acesso :: "string option"
  im_observacoes :: "string option"

record usuario =
  us_id :: "nat option"
  us_nome :: string
  us_email :: string
  us_senha_hash :: "string option"
  us_nivel_permissao :: "int option"
  us_ativo :: bool
  us_data_criacao :: "string option"

record designacao =
  de_id :: "nat option"
  de_territorio_id :: "nat option"
  de_saida_campo_id :: "nat option"
  de_data_designacao :: string
  de_data_devolucao :: "string option"
  de_responsavel :: "string option"
  de_status :: string

record atendimento =
  at_id :: "nat option"
  at_imovel_id :: "nat option"
  at_unidade_id :: "nat option"
  at_data :: string
  at_resultado :: "string option"
  at_observacoes :: "string option"
  at_data_registro :: "string option"

text \<open>\<open>getattr(self, name)\<close> on the attributes the validators name.\<close>

definition Unidade_getattr :: "unidade \<Rightarrow> string \<Rightarrow> pyval" where
  "Unidade_getattr u name =
     (if name = ''id'' then opt_nat (un_id u)
      else if name = ''imovel_id'' then opt_nat (un_imovel_id u)
      else if name = ''numero'' then PyStr (un_numero u)
      else opt_str (un_observacoes u))"

definition Imovel_getattr :: "imovel \<Rightarrow> string \<Rightarrow> pyval" where
  "Imovel_getattr i name =
     (if name = ''id'' then opt_nat (im_id i)
      else if name = ''rua_id'' then opt_nat (im_rua_id i)
      else if name = ''numero'' then PyStr (im_numero i)
      else if name = ''tipo'' then PyStr (im_tipo i)
      else if name = ''nome'' then opt_str (im_nome i)
      else if name = ''total_unidades'' then opt_int (im_total_unidades i)
      else if name = ''tipo_portaria'' then opt_str (im_tipo_portaria i)
      else if name = ''tipo_acesso'' then opt_str (im_tipo_acesso i)
      else opt_str (im_observacoes i))"

definition Usuario_getattr :: "usuario \<Rightarrow> string \<Rightarrow> pyval" where
  "Usuario_getattr u name =
     (if name = ''id'' then opt_nat (us_id u)
      else if name = ''nome'' then PyStr (us_nome u)
      else if name = ''email'' then PyStr (us_email u)
      else if name = ''senha_hash'' then opt_str (us_senha_hash u)
      else if name = ''nivel_permissao'' then opt_int (us_nivel_permissao u)
      else if name = ''ativo'' then PyBool (us_ativo u)
      else opt_str (us_data_criacao u))"

definition Designacao_getattr :: "designacao \<Rightarrow> string \<Rightarrow> pyval" where
  "Designacao_getattr d name =
     (if name = ''id'' then opt_nat (de_id d)
      else if name = ''territorio_id'' then opt_nat (de_territorio_id d)
      else if name = ''saida_campo_id'' then opt_nat (de_saida_campo_id d)
      else if name = ''data_designacao'' then PyStr (de_data_designacao d)
      else if name = ''data_devolucao'' then opt_str (de_data_devolucao d)
      else if name = ''responsavel'' then opt_str (de_responsavel d)
      else PyStr (de_status d))"

definition Atendimento_getattr :: "atendimento \<Rightarrow> string \<Rightarrow> pyval" where
  "Atendimento_getattr a name =
     (if name = ''id'' then opt_nat (at_id a)
      else if name = ''imovel_id'' then opt_nat (at_imovel_id a)
      else if name = ''unidade_id'' then opt_nat (at_unidade_id a)
      else if name = ''data'' then PyStr (at_data a)
      else if name = ''resultado'' then opt_str (at_resultado a)
      else if name = ''observacoes'' then opt_str (at_observacoes a)
      else opt_str (at_data_registro a))"

text \<open>
  The initialisers used inside the modelled operations: \<open>super().__init__(id)\<close>, then the
  attribute assignments. \<open>from_db_row\<close> calls the initialiser with the row's columns.
\<close>

definition Unidade_init ::
  "nat option \<Rightarrow> nat option \<Rightarrow> string \<Rightarrow> string option \<Rightarrow> unidade outcome" where
  "Unidade_init id' imovel_id numero observacoes =
     (case BaseModel_init [opt_nat id'] [] of
        Raises e \<Rightarrow> Raises e
      | Returned _ \<Rightarrow>
          Returned \<lparr>un_id = None, un_imovel_id = imovel_id, un_numero = numero,
                    un_observacoes = observacoes\<rparr>)"

definition Unidade_from_db_row :: "unidade \<Rightarrow> unidade outcome" where
  "Unidade_from_db_row row =
     Unidade_init (un_id row) (un_imovel_id row) (un_numero row) (un_observacoes row)"

definition Imovel_init ::
  "nat option \<Rightarrow> nat option \<Rightarrow> string \<Rightarrow> string \<Rightarrow> string option \<Rightarrow> int option
     \<Rightarrow> string option \<Rightarrow> string option \<Rightarrow> string option \<Rightarrow> imovel outcome" where
  "Imovel_init id' rua_id numero tipo nome total_unidades tipo_portaria tipo_acesso observacoes =
     (case BaseModel_init [opt_nat id'] [] of
        Raises e \<Rightarrow> Raises e
      | Returned _ \<Rightarrow>
          Returned \<lparr>im_id = None, im_rua_id = rua_id, im_numero = numero, im_tipo = tipo,
                    im_nome = nome, im_total_unidades = total_unidades,
                    im_tipo_portaria = tipo_portaria, im_tipo_acesso = tipo_acesso,
                    im_observacoes = observacoes\<rparr>)"

definition Usuario_init ::
  "nat option \<Rightarrow> string \<Rightarrow> string \<Rightarrow> string option \<Rightarrow> int option \<Rightarrow> bool \<Rightarrow> string option
     \<Rightarrow> usuario outcome" where
  "Usuario_init id' nome email senha_hash nivel_permissao ativo data_criacao =
     (case BaseModel_init [opt_nat id'] [] of
        Raises e \<Rightarrow> Raises e
      | Returned _ \<Rightarrow>
          Returned \<lparr>us_id = None, us_nome = nome, us_email = email, us_senha_hash = senha_hash,
                    us_nivel_permissao = nivel_permissao, us_ativo = ativo,
                    us_data_criacao = data_criacao\<rparr>)"

definition Usuario_from_db_row :: "usuario \<Rightarrow> usuario outcome" where
  "Usuario_from_db_row row =
     Usuario_init (us_id row) (us_nome row) (us_email row) (us_senha_hash row)
       (us_nivel_permissao row) (us_ativo row) (us_data_criacao row)"

subsection \<open>The database and \<open>DatabaseManager.execute\<close>\<close>

text \<open>
  A table is the list of its rows in rowid order; a row has the shape of the object it
  is read into, with its \<open>id\<close> set. \<open>ultima_atividade\<close> lists the users whose
  last-activity column was stamped (the stamp itself is the engine's clock), and the
  session and activity-log tables hold the columns the inserts give.
\<close>

record database =
  imoveis :: "imovel list"
  unidades :: "unidade list"
  usuarios :: "usuario list"
  designacoes :: "designacao list"
  atendimentos :: "atendimento list"
  ultima_atividade :: "nat option list"
  sessoes :: "(nat option \<times> string \<times> string) list"
  log_atividades :: "(nat option \<times> string \<times> string) list"

text \<open>The statements the modelled operations send, each with its parameters: an object
  stands for the tuple of its columns named in the SQL text.\<close>

datatype statement =
    InsertImovel imovel
  | UpdateImovel imovel nat
  | InsertUnidade unidade
  | UpdateUnidade unidade nat
  | SelectUnidadesByImovel nat
  | SelectUsuarioByEmail string
  | SelectUsuarioAtivoByEmail string
  | InsertUsuario usuario
  | UpdateUsuario usuario nat
  | UpdateUltimaAtividade "nat option"
  | InsertSessao "nat option" string string
  | InsertLogAtividade "nat option" string string
  | InsertDesignacao designacao
  | UpdateDesignacao designacao nat
  | ConcluirDesignacao nat
  | InsertAtendimento atendimento
  | UpdateAtendimento atendimento nat

text \<open>The rowid an insert gets: one past the largest in the table, 1 in an empty one.\<close>

definition next_id :: "nat option list \<Rightarrow> nat" where
  "next_id ids = Suc (fold max (map (\<lambda>i. case i of None \<Rightarrow> 0 | Some k \<Rightarrow> k) ids) 0)"

text \<open>
  What a statement that the engine accepts does, with the cursor's \<open>lastrowid\<close>. An
  insert stores the columns it names (\<open>data_criacao\<close> and \<open>data_registro\<close> are not
  among them); an update rewrites the columns it names in every row with that id.
\<close>

fun run_statement :: "statement \<Rightarrow> database \<Rightarrow> nat \<times> database" where
  "run_statement (InsertImovel i) db =
     (let k = next_id (map im_id (imoveis db))
      in (k, db\<lparr>imoveis := imoveis db @ [i\<lparr>im_id := Some k\<rparr>]\<rparr>))"
| "run_statement (UpdateImovel i k) db =
     (0, db\<lparr>imoveis := map (\<lambda>r. if im_id r = Some k then i\<lparr>im_id := Some k\<rparr> else r) (imoveis db)\<rparr>)"
| "run_statement (InsertUnidade u) db =
     (let k = next_id (map un_id (unidades db))
      in (k, db\<lparr>unidades := unidades db @ [u\<lparr>un_id := Some k\<rparr>]\<rparr>))"
| "run_statement (UpdateUnidade u k) db =
     (0, db\<lparr>unidades := map (\<lambda>r. if un_id r = Some k then u\<lparr>un_id := Some k\<rparr> else r) (unidades db)\<rparr>)"
| "run_statement (InsertUsuario u) db =
     (let k = next_id (map us_id (usuarios db))
      in (k, db\<lparr>usuarios := usuarios db @ [u\<lparr>us_id := Some k, us_data_criacao := None\<rparr>]\<rparr>))"
| "run_statement (UpdateUsuario u k) db =
     (0, db\<lparr>usuarios :=
             map (\<lambda>r. if us_id r = Some k
                       then r\<lparr>us_nome := us_nome u, us_email := us_email u,
                              us_senha_hash := us_senha_hash u,
                              us_nivel_permissao := us_nivel_permissao u, us_ativo := us_ativo u\<rparr>
                       else r) (usuarios db)\<rparr>)"
| "run_statement (UpdateUltimaAtividade k) db =
     (0, if k \<noteq> None \<and> k \<in> set (map us_id (usuarios db))
         then db\<lparr>ultima_atividade := ultima_atividade db @ [k]\<rparr> else db)"
| "run_statement (InsertSessao k token expira) db =
     (Suc (length (sessoes db)), db\<lparr>sessoes := sessoes db @ [(k, token, expira)]\<rparr>)"
| "run_statement (InsertLogAtividade k tipo_acao descricao) db =
     (Suc (length (log_atividades db)),
      db\<lparr>log_atividades := log_atividades db @ [(k, tipo_acao, descricao)]\<rparr>)"
| "run_statement (InsertDesignacao d) db =
     (let k = next_id (map de_id (designacoes db))
      in (k, db\<lparr>designacoes := designacoes db @ [d\<lparr>de_id := Some k\<rparr>]\<rparr>))"
| "run_statement (UpdateDesignacao d k) db =
     (0, db\<lparr>designacoes := map (\<lambda>r. if de_id r = Some k then d\<lparr>de_id := Some k\<rparr> else r) (designacoes db)\<rparr>)"
| "run_statement (ConcluirDesignacao k) db =
     (0, db\<lparr>designacoes :=
             map (\<lambda>r. if de_id r = Some k then r\<lparr>de_status := ''concluido''\<rparr> else r) (designacoes db)\<rparr>)"
| "run_statement (InsertAtendimento a) db =
     (let k = next_id (map at_id (atendimentos db))
      in (k, db\<lparr>atendimentos := atendimentos db @ [a\<lparr>at_id := Some k, at_data_registro := None\<rparr>]\<rparr>))"
| "run_statement (UpdateAtendimento a k) db =
     (0, db\<lparr>atendimentos :=
             map (\<lambda>r. if at_id r = Some k
                       then a\<lparr>at_id := Some k, at_data_registro := at_data_registro r\<rparr>
                       else r) (atendimentos db)\<rparr>)"
| "run_statement (SelectUnidadesByImovel k) db = (0, db)"
| "run_statement (SelectUsuarioByEmail e) db = (0, db)"
| "run_statement (SelectUsuarioAtivoByEmail e) db = (0, db)"

text \<open>
  \<open>DatabaseManager.execute\<close>: the cursor, or \<open>None\<close> when the driver raises
  \<open>sqlite3.Error\<close>. Which statements the driver rejects during a call (a missing table
  or column, a constraint of the schema, a locked file) is not decided by the sources;
  it is the parameter \<open>rejects\<close> of every operation. \<open>commit\<close> changes nothing here:
  nothing is ever rolled back.
\<close>

definition execute :: "(statement \<Rightarrow> bool) \<Rightarrow> statement \<Rightarrow> database \<Rightarrow> (nat \<times> database) option" where
  "execute rejects stmt db = (if rejects stmt then None else Some (run_statement stmt db))"

text \<open>The rows a cursor yields to \<open>fetchone\<close> and \<open>fetchall\<close>. \<open>ORDER BY numero\<close>
  compares the texts byte by byte.\<close>

definition fetch_unidades :: "(statement \<Rightarrow> bool) \<Rightarrow> nat \<Rightarrow> database \<Rightarrow> unidade list option" where
  "fetch_unidades rejects imovel_id db =
     (if rejects (SelectUnidadesByImovel imovel_id) then None
      else Some (sort_key un_numero (filter (\<lambda>r. un_imovel_id r = Some imovel_id) (unidades db))))"

definition fetch_usuarios :: "(statement \<Rightarrow> bool) \<Rightarrow> statement \<Rightarrow> database \<Rightarrow> usuario list option" where
  "fetch_usuarios rejects stmt db =
     (if rejects stmt then None
      else (case stmt of
              SelectUsuarioByEmail e \<Rightarrow> Some (filter (\<lambda>r. us_email r = e) (usuarios db))
            | SelectUsuarioAtivoByEmail e \<Rightarrow>
                Some (filter (\<lambda>r. us_email r = e \<and> us_ativo r) (usuarios db))
            | _ \<Rightarrow> Some []))"

definition accepts_all :: "statement \<Rightarrow> bool" where
  "accepts_all stmt = False"

definition rejects_all :: "statement \<Rightarrow> bool" where
  "rejects_all stmt = True"

subsection \<open>Validation\<close>

text \<open>
  Every \<open>validate\<close> starts from \<open>validate_required_fields(self, required_fields)\<close>,
  imported from utils/validation.py, where no function of that name is defined. It is
  the parameter \<open>vrf\<close>: from the object's attributes and the (attribute, message) pairs
  to the messages. The messages of the sources are given without their diacritics.
\<close>

type_synonym required_check = "(string \<Rightarrow> pyval) \<Rightarrow> (string \<times> string) list \<Rightarrow> string list"

definition Unidade_validate :: "required_check \<Rightarrow> unidade \<Rightarrow> string list" where
  "Unidade_validate vrf u =
     vrf (Unidade_getattr u)
       [(''imovel_id'', ''Imovel e obrigatorio''), (''numero'', ''Numero da unidade e obrigatorio'')]"

definition tipos_validos :: "string list" where
  "tipos_validos = [''residencial'', ''comercial'', ''predio'', ''vila'']"

definition Imovel_validate :: "required_check \<Rightarrow> imovel \<Rightarrow> string list" where
  "Imovel_validate vrf i =
     vrf (Imovel_getattr i)
       [(''rua_id'', ''Rua e obrigatoria''), (''numero'', ''Numero e obrigatorio''),
        (''tipo'', ''Tipo e obrigatorio'')]
     @ (if im_tipo i \<noteq> [] \<and> im_tipo i \<notin> set tipos_validos
        then [''Tipo deve ser um dos seguintes: residencial, comercial, predio, vila''] else [])
     @ (if im_tipo i \<in> set [''predio'', ''vila'']
           \<and> (im_total_unidades i = None \<or> im_total_unidades i = Some 0)
        then [''Total de unidades e obrigatorio para predios e vilas''] else [])"

definition Usuario_validate :: "required_check \<Rightarrow> usuario \<Rightarrow> string list" where
  "Usuario_validate vrf u =
     vrf (Usuario_getattr u)
       [(''nome'', ''Nome e obrigatorio''), (''email'', ''Email e obrigatorio''),
        (''nivel_permissao'', ''Nivel de permissao e obrigatorio'')]
     @ (if us_email u \<noteq> [] \<and> CHR ''@'' \<notin> set (us_email u) then [''Email invalido''] else [])
     @ (case us_nivel_permissao u of
          None \<Rightarrow> []
        | Some n \<Rightarrow> (if n \<in> set [1, 2, 3] then [] else [''Nivel de permissao invalido'']))
     @ (if us_id u = None \<and> (us_senha_hash u = None \<or> us_senha_hash u = Some [])
        then [''Senha e obrigatoria para novos usuarios''] else [])"

definition Designacao_validate :: "required_check \<Rightarrow> designacao \<Rightarrow> string list" where
  "Designacao_validate vrf d =
     vrf (Designacao_getattr d)
       [(''territorio_id'', ''Territorio e obrigatorio''),
        (''saida_campo_id'', ''Saida de campo e obrigatoria''),
        (''data_designacao'', ''Data de designacao e obrigatoria''),
        (''status'', ''Status e obrigatorio'')]
     @ (if de_status d \<in> set [''ativo'', ''concluido''] then []
        else [''Status deve ser '' @ [CHR 0x27] @ ''ativo'' @ [CHR 0x27] @ '' ou '' @ [CHR 0x27]
                @ ''concluido'' @ [CHR 0x27]])"

definition resultados_validos :: "string list" where
  "resultados_validos = [''positivo'', ''ocupante-ausente'', ''recusou-atendimento'', ''visitado'']"

definition Atendimento_validate :: "required_check \<Rightarrow> atendimento \<Rightarrow> string list" where
  "Atendimento_validate vrf a =
     vrf (Atendimento_getattr a)
       [(''imovel_id'', ''Imovel e obrigatorio''), (''data'', ''Data e obrigatoria'')]
     @ (case at_resultado a of
          None \<Rightarrow> []
        | Some r \<Rightarrow>
            (if r \<noteq> [] \<and> r \<notin> set resultados_validos
             then [''Resultado deve ser um dos seguintes: positivo, ocupante-ausente, recusou-atendimento, visitado'']
             else []))"

subsection \<open>Unidade (models/imovel/unidade.py)\<close>

text \<open>\<open>save\<close> returns its boolean, the object (whose \<open>id\<close> an insert sets) and the
  database.\<close>

definition Unidade_save ::
  "(statement \<Rightarrow> bool) \<Rightarrow> required_check \<Rightarrow> unidade \<Rightarrow> database \<Rightarrow> bool \<times> unidade \<times> database" where
  "Unidade_save rejects vrf u db =
     (if Unidade_validate vrf u \<noteq> [] then (False, u, db)
      else (case un_id u of
              None \<Rightarrow>
                (case execute rejects (InsertUnidade u) db of
                   Some (lastrowid, db') \<Rightarrow> (True, u\<lparr>un_id := Some lastrowid\<rparr>, db')
                 | None \<Rightarrow> (False, u, db))
            | Some k \<Rightarrow>
                (case execute rejects (UpdateUnidade u k) db of
                   Some (lastrowid, db') \<Rightarrow> (True, u, db')
                 | None \<Rightarrow> (False, u, db))))"

text \<open>\<open>[Unidade.from_db_row(row) for row in cursor.fetchall()]\<close>: the first row whose
  object cannot be built ends the comprehension with its exception.\<close>

fun rows_to_unidades :: "unidade list \<Rightarrow> unidade list outcome" where
  "rows_to_unidades [] = Returned []"
| "rows_to_unidades (row # rest) =
     (case Unidade_from_db_row row of
        Raises e \<Rightarrow> Raises e
      | Returned u \<Rightarrow>
          (case rows_to_unidades rest of Raises e \<Rightarrow> Raises e | Returned us \<Rightarrow> Returned (u # us)))"

definition get_by_imovel :: "(statement \<Rightarrow> bool) \<Rightarrow> nat \<Rightarrow> database \<Rightarrow> unidade list outcome" where
  "get_by_imovel rejects imovel_id db =
     (case fetch_unidades rejects imovel_id db of
        None \<Rightarrow> Returned []
      | Some rows \<Rightarrow> rows_to_unidades rows)"

subsection \<open>Imovel (models/imovel/imovel.py)\<close>

text \<open>\<open>f"{i:02d}"\<close> for the positive numbers the loops produce: decimal, at least two
  digits.\<close>

definition digit_char :: "nat \<Rightarrow> char" where
  "digit_char d = ''0123456789'' ! (d mod 10)"

fun decimal :: "nat \<Rightarrow> string" where
  "decimal n = (if n < 10 then [digit_char n] else decimal (n div 10) @ [digit_char (n mod 10)])"

definition fmt_02d :: "int \<Rightarrow> string" where
  "fmt_02d i = (if nat i < 10 then CHR ''0'' # decimal (nat i) else decimal (nat i))"

text \<open>\<open>f"Apto {i:02d}"\<close> in the branch for \<open>'predio'\<close>, \<open>f"Casa {i:02d}"\<close> in the
  other.\<close>

definition unit_label :: "string \<Rightarrow> int \<Rightarrow> string" where
  "unit_label tipo i = (if tipo = ''predio'' then ''Apto '' else ''Casa '') @ fmt_02d i"

text \<open>The two loops of \<open>_criar_unidades\<close> differ in the label only. Each pass
  builds a \<open>Unidade\<close> and saves it; the value \<open>save\<close> returns is dropped.
  \<open>range(1, self.total_unidades + 1)\<close> raises on \<open>None\<close>.\<close>

fun criar_unidades_loop ::
  "(statement \<Rightarrow> bool) \<Rightarrow> required_check \<Rightarrow> string \<Rightarrow> nat option \<Rightarrow> int list \<Rightarrow> database
     \<Rightarrow> unit outcome \<times> database" where
  "criar_unidades_loop rejects vrf tipo imovel_id [] db = (Returned (), db)"
| "criar_unidades_loop rejects vrf tipo imovel_id (i # rest) db =
     (case Unidade_init None imovel_id (unit_label tipo i) None of
        Raises e \<Rightarrow> (Raises e, db)
      | Returned unidade \<Rightarrow>
          criar_unidades_loop rejects vrf tipo imovel_id rest
            (snd (snd (Unidade_save rejects vrf unidade db))))"

definition criar_unidades ::
  "(statement \<Rightarrow> bool) \<Rightarrow> required_check \<Rightarrow> imovel \<Rightarrow> database \<Rightarrow> bool outcome \<times> database" where
  "criar_unidades rejects vrf i db =
     (case im_total_unidades i of
        None \<Rightarrow> (Raises TypeError, db)
      | Some total_unidades \<Rightarrow>
          (case criar_unidades_loop rejects vrf (im_tipo i) (im_id i) [1..total_unidades] db of
             (Raises e, db') \<Rightarrow> (Raises e, db')
           | (Returned _, db') \<Rightarrow> (Returned True, db')))"

definition Imovel_save ::
  "(statement \<Rightarrow> bool) \<Rightarrow> required_check \<Rightarrow> imovel \<Rightarrow> database \<Rightarrow> bool outcome \<times> imovel \<times> database" where
  "Imovel_save rejects vrf i db =
     (if Imovel_validate vrf i \<noteq> [] then (Returned False, i, db)
      else (case im_id i of
              None \<Rightarrow>
                (case execute rejects (InsertImovel i) db of
                   Some (lastrowid, db') \<Rightarrow>
                     (let i' = i\<lparr>im_id := Some lastrowid\<rparr>
                      in (case im_total_unidades i of
                            None \<Rightarrow> (Returned True, i', db')
                          | Some n_unidades \<Rightarrow>
                              (if im_tipo i \<in> set [''predio'', ''vila''] \<and> n_unidades \<noteq> 0 \<and> n_unidades > 0
                               then (case criar_unidades rejects vrf i' db' of
                                       (Raises e, db'') \<Rightarrow> (Raises e, i', db'')
                                     | (Returned _, db'') \<Rightarrow> (Returned True, i', db''))
                               else (Returned True, i', db'))))
                 | None \<Rightarrow> (Returned False, i, db))
            | Some k \<Rightarrow>
                (case execute rejects (UpdateImovel i k) db of
                   Some (lastrowid, db') \<Rightarrow> (Returned True, i, db')
                 | None \<Rightarrow> (Returned False, i, db))))"

subsection \<open>Usuario (models/usuario/usuario.py)\<close>

text \<open>\<open>get_by_email\<close>: \<open>None\<close> when the statement is rejected or no row comes back,
  otherwise the object built from the first row.\<close>

definition get_by_email :: "(statement \<Rightarrow> bool) \<Rightarrow> string \<Rightarrow> database \<Rightarrow> usuario option outcome" where
  "get_by_email rejects email db =
     (case fetch_usuarios rejects (SelectUsuarioByEmail email) db of
        None \<Rightarrow> Returned None
      | Some [] \<Rightarrow> Returned None
      | Some (row # rest) \<Rightarrow>
          (case Usuario_from_db_row row of
             Raises e \<Rightarrow> Raises e
           | Returned u \<Rightarrow> Returned (Some u)))"

definition Usuario_save ::
  "(statement \<Rightarrow> bool) \<Rightarrow> required_check \<Rightarrow> usuario \<Rightarrow> database \<Rightarrow> bool outcome \<times> usuario \<times> database" where
  "Usuario_save rejects vrf u db =
     (if Usuario_validate vrf u \<noteq> [] then (Returned False, u, db)
      else (case us_id u of
              None \<Rightarrow>
                (case get_by_email rejects (us_email u) db of
                   Raises e \<Rightarrow> (Raises e, u, db)
                 | Returned (Some existing) \<Rightarrow> (Returned False, u, db)
                 | Returned None \<Rightarrow>
                     (case execute rejects (InsertUsuario u) db of
                        Some (lastrowid, db') \<Rightarrow> (Returned True, u\<lparr>us_id := Some lastrowid\<rparr>, db')
                      | None \<Rightarrow> (Returned False, u, db)))
            | Some k \<Rightarrow>
                (case get_by_email rejects (us_email u) db of
                   Raises e \<Rightarrow> (Raises e, u, db)
                 | Returned existing \<Rightarrow>
                     (if existing \<noteq> None \<and> Option.bind existing us_id \<noteq> Some k
                      then (Returned False, u, db)
                      else (case execute rejects (UpdateUsuario u k) db of
                              Some (lastrowid, db') \<Rightarrow> (Returned True, u, db')
                            | None \<Rightarrow> (Returned False, u, db))))))"

subsection \<open>Designacao (models/designacao/designacao.py)\<close>

definition Designacao_save ::
  "(statement \<Rightarrow> bool) \<Rightarrow> required_check \<Rightarrow> designacao \<Rightarrow> database \<Rightarrow> bool \<times> designacao \<times> database" where
  "Designacao_save rejects vrf d db =
     (if Designacao_validate vrf d \<noteq> [] then (False, d, db)
      else (case de_id d of
              None \<Rightarrow>
                (case execute rejects (InsertDesignacao d) db of
                   Some (lastrowid, db') \<Rightarrow> (True, d\<lparr>de_id := Some lastrowid\<rparr>, db')
                 | None \<Rightarrow> (False, d, db))
            | Some k \<Rightarrow>
                (case execute rejects (UpdateDesignacao d k) db of
                   Some (lastrowid, db') \<Rightarrow> (True, d, db')
                 | None \<Rightarrow> (False, d, db))))"

text \<open>\<open>concluir\<close> sets the attribute before it sends the statement.\<close>

definition concluir ::
  "(statement \<Rightarrow> bool) \<Rightarrow> designacao \<Rightarrow> database \<Rightarrow> bool \<times> designacao \<times> database" where
  "concluir rejects d db =
     (case de_id d of
        None \<Rightarrow> (False, d, db)
      | Some k \<Rightarrow>
          (let d' = d\<lparr>de_status := ''concluido''\<rparr>
           in (case execute rejects (ConcluirDesignacao k) db of
                 Some (lastrowid, db') \<Rightarrow> (True, d', db')
               | None \<Rightarrow> (False, d', db))))"

subsection \<open>Atendimento (models/atendimento/atendimento.py)\<close>

definition Atendimento_save ::
  "(statement \<Rightarrow> bool) \<Rightarrow> required_check \<Rightarrow> atendimento \<Rightarrow> database \<Rightarrow> bool \<times> atendimento \<times> database" where
  "Atendimento_save rejects vrf a db =
     (if Atendimento_validate vrf a \<noteq> [] then (False, a, db)
      else (case at_id a of
              None \<Rightarrow>
                (case execute rejects (InsertAtendimento a) db of
                   Some (lastrowid, db') \<Rightarrow> (True, a\<lparr>at_id := Some lastrowid\<rparr>, db')
                 | None \<Rightarrow> (False, a, db))
            | Some k \<Rightarrow>
                (case execute rejects (UpdateAtendimento a k) db of
                   Some (lastrowid, db') \<Rightarrow> (True, a, db')
                 | None \<Rightarrow> (False, a, db))))"

subsection \<open>A required-fields check, and sample data\<close>

text \<open>
  Modelled from the spec: \<open>validate_required_fields\<close> is imported by the models but is
  not defined in utils/validation.py. The spec's required-field checks are taken to
  apply the test of \<open>validate_required\<close> of that module (the value is \<open>None\<close>, or a
  string that is blank after \<open>strip\<close>) to each named attribute and to collect the
  messages given. It serves as an instance of the parameter where a concrete run is
  evaluated.
\<close>

definition is_blank :: "string \<Rightarrow> bool" where
  "is_blank s = list_all (\<lambda>c. c \<in> set [CHR '' '', CHR 0x09, CHR 0x0A, CHR 0x0B, CHR 0x0C, CHR 0x0D]) s"

definition validate_required_fields :: required_check where
  "validate_required_fields attrs required_fields =
     map snd (filter (\<lambda>f. case attrs (fst f) of
                              PyNone \<Rightarrow> True
                            | PyStr s \<Rightarrow> is_blank s
                            | _ \<Rightarrow> False) required_fields)"

definition empty_database :: database where
  "empty_database = \<lparr>imoveis = [], unidades = [], usuarios = [], designacoes = [],
     atendimentos = [], ultima_atividade = [], sessoes = [], log_atividades = []\<rparr>"

subsection \<open>Stored statuses, and sample data\<close>

text \<open>Every stored assignment has one of the two statuses.\<close>

definition valid_statuses :: "database \<Rightarrow> bool" where
  "valid_statuses db = list_all (\<lambda>r. de_status r \<in> set [''ativo'', ''concluido'']) (designacoes db)"

text \<open>A new building with five units; objects that fail validation; a stored user
  whose hash was set for the password \<open>segredo\<close> under the one-byte salt \<open>ab\<close> with
  \<open>sample_kdf\<close>, the same hash with a blank after the salt, and a second account that
  asks for her address; an assignment; five stored units of one building next to a unit
  of another; and a driver that rejects the lookup by email and nothing else.\<close>

definition edificio_central :: imovel where
  "edificio_central = \<lparr>im_id = None, im_rua_id = Some 1, im_numero = ''127'', im_tipo = ''predio'',
     im_nome = Some ''Edificio Central'', im_total_unidades = Some 5, im_tipo_portaria = None,
     im_tipo_acesso = None, im_observacoes = None\<rparr>"

definition imovel_sem_unidades :: imovel where
  "imovel_sem_unidades = edificio_central\<lparr>im_total_unidades := None\<rparr>"

definition maria :: usuario where
  "maria = \<lparr>us_id = Some 1, us_nome = ''Maria'', us_email = ''maria@sistema.local'',
     us_senha_hash = Some ''ab:ab02010202010201'', us_nivel_permissao = Some 1, us_ativo = True,
     us_data_criacao = None\<rparr>"

definition maria_blank_after_salt :: usuario where
  "maria_blank_after_salt = maria\<lparr>us_senha_hash := Some ''ab :ab02010202010201''\<rparr>"

definition outra_maria :: usuario where
  "outra_maria = \<lparr>us_id = None, us_nome = ''Outra Maria'', us_email = ''maria@sistema.local'',
     us_senha_hash = Some ''cd:cd02010202010201'', us_nivel_permissao = Some 1, us_ativo = True,
     us_data_criacao = None\<rparr>"

definition usuario_sem_arroba :: usuario where
  "usuario_sem_arroba = outra_maria\<lparr>us_email := ''maria.sistema.local''\<rparr>"

definition one_user_db :: database where
  "one_user_db = empty_database\<lparr>usuarios := [maria]\<rparr>"

definition designacao_ativa :: designacao where
  "designacao_ativa = \<lparr>de_id = Some 1, de_territorio_id = Some 1, de_saida_campo_id = Some 1,
     de_data_designacao = ''2024-01-13'', de_data_devolucao = None, de_responsavel = None,
     de_status = ''ativo''\<rparr>"

definition designacao_pausada :: designacao where
  "designacao_pausada = designacao_ativa\<lparr>de_status := ''pausado''\<rparr>"

definition one_designacao_db :: database where
  "one_designacao_db = empty_database\<lparr>designacoes := [designacao_ativa]\<rparr>"

definition atendimento_talvez :: atendimento where
  "atendimento_talvez = \<lparr>at_id = None, at_imovel_id = Some 1, at_unidade_id = None,
     at_data = ''2024-01-13'', at_resultado = Some ''talvez'', at_observacoes = None,
     at_data_registro = None\<rparr>"

definition five_units_db :: database where
  "five_units_db = empty_database\<lparr>unidades :=
     [\<lparr>un_id = Some 1, un_imovel_id = Some 7, un_numero = ''Casa 01'', un_observacoes = None\<rparr>,
      \<lparr>un_id = Some 2, un_imovel_id = Some 1, un_numero = ''Apto 01'', un_observacoes = None\<rparr>,
      \<lparr>un_id = Some 3, un_imovel_id = Some 1, un_numero = ''Apto 02'', un_observacoes = None\<rparr>,
      \<lparr>un_id = Some 4, un_imovel_id = Some 1, un_numero = ''Apto 03'', un_observacoes = None\<rparr>,
      \<lparr>un_id = Some 5, un_imovel_id = Some 1, un_numero = ''Apto 04'', un_observacoes = None\<rparr>,
      \<lparr>un_id = Some 6, un_imovel_id = Some 1, un_numero = ''Apto 05'', un_observacoes = None\<rparr>]\<rparr>"

definition lookup_rejected :: "statement \<Rightarrow> bool" where
  "lookup_rejected stmt = (case stmt of SelectUsuarioByEmail e \<Rightarrow> True | _ \<Rightarrow> False)"

section \<open>Password hashes and authentication (models/usuario/usuario.py, services/auth\_service.py)\<close>

type_synonym byte = "8 word"

text \<open>\<open>bytes.fromhex\<close>: two hexadecimal digits per byte, in either case; ASCII
  whitespace before a byte is skipped; anything else raises \<open>ValueError\<close> (\<open>None\<close>).\<close>

definition hexval :: "char \<Rightarrow> nat option" where
  "hexval c =
     (let n = (of_char c :: nat)
      in if 48 \<le> n \<and> n \<le> 57 then Some (n - 48)
         else if 97 \<le> n \<and> n \<le> 102 then Some (n - 87)
         else if 65 \<le> n \<and> n \<le> 70 then Some (n - 55)
         else None)"

definition is_space :: "char \<Rightarrow> bool" where
  "is_space c = (c \<in> set [CHR '' '', CHR 0x09, CHR 0x0A, CHR 0x0B, CHR 0x0C, CHR 0x0D])"

fun fromhex :: "string \<Rightarrow> byte list option" where
  "fromhex [] = Some []"
| "fromhex (c # cs) =
     (if is_space c then fromhex cs
      else (case hexval c of
              None \<Rightarrow> None
            | Some hi \<Rightarrow>
                (case cs of
                   [] \<Rightarrow> None
                 | d # ds \<Rightarrow>
                     (case hexval d of
                        None \<Rightarrow> None
                      | Some lo \<Rightarrow>
                          (case fromhex ds of
                             None \<Rightarrow> None
                           | Some bs \<Rightarrow> Some (word_of_nat (hi * 16 + lo) # bs))))))"

text \<open>\<open>bytes.hex()\<close>\<close>

definition hex_digit :: "nat \<Rightarrow> char" where
  "hex_digit n = ''0123456789abcdef'' ! (n mod 16)"

definition hex :: "byte list \<Rightarrow> string" where
  "hex bs = concat (map (\<lambda>b. [hex_digit (unat b div 16), hex_digit (unat b mod 16)]) bs)"

text \<open>\<open>str.split(sep)\<close> for a one-character separator.\<close>

fun split_on :: "char \<Rightarrow> string \<Rightarrow> string list" where
  "split_on sep [] = [[]]"
| "split_on sep (c # cs) =
     (if c = sep then [] # split_on sep cs
      else (case split_on sep cs of
              [] \<Rightarrow> [[c]]
            | part # parts \<Rightarrow> (c # part) # parts))"

text \<open>
  The body of the \<open>try\<close> block, the same text in \<open>Usuario.verificar_senha\<close> and
  \<open>AuthService._verificar_senha\<close>; every exception inside it becomes \<open>False\<close>. The
  parameter \<open>kdf senha salt n\<close> stands for
  \<open>hashlib.pbkdf2_hmac('sha256', senha.encode('utf-8'), salt, n)\<close>.
\<close>

type_synonym kdf = "string \<Rightarrow> byte list \<Rightarrow> nat \<Rightarrow> byte list"

definition verify_body :: "kdf \<Rightarrow> string \<Rightarrow> string \<Rightarrow> bool" where
  "verify_body kdf senha senha_hash =
     (case split_on CHR '':'' senha_hash of
        [salt_str, hash_str] \<Rightarrow>
          (case fromhex salt_str of
             None \<Rightarrow> False
           | Some salt \<Rightarrow>
               (case fromhex hash_str of
                  None \<Rightarrow> False
                | Some hash_stored \<Rightarrow> kdf senha salt 100000 = hash_stored))
      | _ \<Rightarrow> False)"

text \<open>\<open>if not self.senha_hash: return False\<close> comes before the \<open>try\<close>.\<close>

definition verificar_senha :: "kdf \<Rightarrow> usuario \<Rightarrow> string \<Rightarrow> bool" where
  "verificar_senha kdf u senha =
     (case us_senha_hash u of
        None \<Rightarrow> False
      | Some h \<Rightarrow> (if h = [] then False else verify_body kdf senha h))"

text \<open>In the service a \<open>None\<close> hash fails inside the \<open>try\<close> (\<open>None.split\<close>).\<close>

definition AuthService_verificar_senha :: "kdf \<Rightarrow> string \<Rightarrow> string option \<Rightarrow> bool" where
  "AuthService_verificar_senha kdf senha senha_hash =
     (case senha_hash of None \<Rightarrow> False | Some h \<Rightarrow> verify_body kdf senha h)"

text \<open>\<open>definir_senha\<close>, with the 32 bytes of \<open>os.urandom\<close> as \<open>salt\<close>.\<close>

definition definir_senha :: "kdf \<Rightarrow> byte list \<Rightarrow> usuario \<Rightarrow> string \<Rightarrow> usuario" where
  "definir_senha kdf salt u senha =
     u\<lparr>us_senha_hash := Some (hex salt @ '':'' @ hex (kdf senha salt 100000))\<rparr>"

definition registrar_login :: "(statement \<Rightarrow> bool) \<Rightarrow> nat option \<Rightarrow> database \<Rightarrow> bool \<times> database" where
  "registrar_login rejects usuario_id db =
     (case execute rejects (InsertLogAtividade usuario_id ''login'' ''Login realizado com sucesso'') db of
        Some (lastrowid, db') \<Rightarrow> (True, db')
      | None \<Rightarrow> (False, db))"

text \<open>
  \<open>authenticate\<close>. The text of \<open>criar_sessao\<close> breaks off in the sources after the start
  of its \<open>INSERT\<close>, so the session step is the parameter \<open>criar_sessao\<close>: from the user
  id and the database to the token and the database. The answer is the pair
  (success, user row with the token), the row as it was read before the stamp.
\<close>

definition authenticate ::
  "(statement \<Rightarrow> bool) \<Rightarrow> kdf \<Rightarrow> (nat option \<Rightarrow> database \<Rightarrow> string \<times> database) \<Rightarrow> string \<Rightarrow> string
     \<Rightarrow> database \<Rightarrow> (bool \<times> (usuario \<times> string) option) \<times> database" where
  "authenticate rejects kdf criar_sessao email senha db =
     (case fetch_usuarios rejects (SelectUsuarioAtivoByEmail email) db of
        None \<Rightarrow> ((False, None), db)
      | Some [] \<Rightarrow> ((False, None), db)
      | Some (usuario # rest) \<Rightarrow>
          (if \<not> AuthService_verificar_senha kdf senha (us_senha_hash usuario)
           then ((False, None), db)
           else
             (let db1 = (case execute rejects (UpdateUltimaAtividade (us_id usuario)) db of
                           Some (lastrowid, db') \<Rightarrow> db'
                         | None \<Rightarrow> db);
                  (token, db2) = criar_sessao (us_id usuario) db1;
                  (logged, db3) = registrar_login rejects (us_id usuario) db2
              in ((True, Some (usuario, token)), db3))))"

text \<open>
  Modelled from the spec: the rest of \<open>criar_sessao\<close> is missing from
  services/auth\_service.py. Following the spec's \<open>createSession\<close>, it persists a
  session row keyed by the generated token (when the driver accepts the insert) and
  returns the token; the random token and the formatted expiry are given.
\<close>

definition criar_sessao ::
  "(statement \<Rightarrow> bool) \<Rightarrow> string \<Rightarrow> string \<Rightarrow> nat option \<Rightarrow> database \<Rightarrow> string \<times> database" where
  "criar_sessao rejects token data_expiracao usuario_id db =
     (case execute rejects (InsertSessao usuario_id token data_expiracao) db of
        Some (lastrowid, db') \<Rightarrow> (token, db')
      | None \<Rightarrow> (token, db))"

text \<open>A stand-in for the key derivation in concrete runs: any function will do, since
  the operations only compare its result.\<close>

definition sample_kdf :: kdf where
  "sample_kdf senha salt n = salt @ map (\<lambda>c. if c \<in> set ''aeiou'' then 0x01 else 0x02) senha"

section \<open>Backup rotation: proofs\<close>

lemma os_remove_undeletable [simp]: "undeletable (os_remove f fs) = undeletable fs"
  by (simp add: os_remove_def)

lemma os_remove_dir_exists [simp]: "dir_exists (os_remove f fs) = dir_exists fs"
  by (simp add: os_remove_def)

lemma remove_all_entries:
  "set names \<inter> set (undeletable fs) = {} \<Longrightarrow>
   remove_all names fs = fs\<lparr>entries := filter (\<lambda>e. fst e \<notin> set names) (entries fs)\<rparr>"
proof (induction names arbitrary: fs)
  case Nil
  then show ?case by simp
next
  case (Cons f rest)
  have "set rest \<inter> set (undeletable (os_remove f fs)) = {}"
    using Cons.prems by auto
  from Cons.IH[OF this] show ?case
    using Cons.prems by (auto simp: os_remove_def intro!: filter_cong)
qed

lemma is_backup_name_new: "is_backup_name (backup_filename ts)"
  by (simp add: backup_filename_def is_backup_name_def startswith_def endswith_def)

lemma sort_newest_first_mset: "mset (sort_newest_first bs) = mset bs"
  by (simp add: sort_newest_first_def)

lemma sort_newest_first_sorted: "sorted (map (\<lambda>b. - snd b) (sort_newest_first bs))"
  by (simp add: sort_newest_first_def)

lemma kept_newer_than_dropped:
  assumes "k \<in> set (take n (sort_newest_first bs))" "r \<in> set (drop n (sort_newest_first bs))"
  shows "snd r \<le> snd k"
proof -
  let ?s = "sort_newest_first bs"
  have "sorted (map (\<lambda>b. - snd b) (take n ?s) @ map (\<lambda>b. - snd b) (drop n ?s))"
    using sort_newest_first_sorted[of bs] by (metis append_take_drop_id map_append)
  then have "- snd k \<le> - snd r"
    using assms by (auto simp: sorted_append)
  then show ?thesis by simp
qed

lemma distinct_names_sorted:
  "distinct (map fst bs) \<Longrightarrow> distinct (map fst (sort_newest_first bs))"
proof -
  have "mset (map fst (sort_newest_first bs)) = mset (map fst bs)"
    by (simp add: sort_newest_first_mset)
  then show "distinct (map fst bs) \<Longrightarrow> distinct (map fst (sort_newest_first bs))"
    by (metis mset_eq_imp_distinct_iff)
qed

lemma prune_keeps_take:
  assumes d: "distinct (map fst bs)"
  shows "mset (filter (\<lambda>e. fst e \<notin> fst ` set (drop n (sort_newest_first bs))) bs)
         = mset (take n (sort_newest_first bs))"
proof -
  let ?S = "sort_newest_first bs"
  let ?P = "\<lambda>e. fst e \<notin> fst ` set (drop n ?S)"
  have dS: "distinct (map fst (take n ?S) @ map fst (drop n ?S))"
    using distinct_names_sorted[OF d] by (metis append_take_drop_id map_append)
  have a: "filter ?P (take n ?S) = take n ?S"
    using dS by (auto simp: filter_id_conv)
  have b: "filter ?P (drop n ?S) = []"
    by (auto simp: filter_empty_conv)
  have "mset (filter ?P bs) = filter_mset ?P (mset ?S)"
    by (simp add: sort_newest_first_mset)
  also have "\<dots> = filter_mset ?P (mset (take n ?S @ drop n ?S))"
    by simp
  also have "\<dots> = mset (filter ?P (take n ?S)) + mset (filter ?P (drop n ?S))"
    by (simp only: mset_append filter_union_mset mset_filter)
  finally show ?thesis using a b by simp
qed

lemma prune_drops_drop:
  assumes d: "distinct (map fst bs)"
  shows "mset (filter (\<lambda>e. fst e \<in> fst ` set (drop n (sort_newest_first bs))) bs)
         = mset (drop n (sort_newest_first bs))"
proof -
  let ?S = "sort_newest_first bs"
  let ?P = "\<lambda>e. fst e \<in> fst ` set (drop n ?S)"
  have dS: "distinct (map fst (take n ?S) @ map fst (drop n ?S))"
    using distinct_names_sorted[OF d] by (metis append_take_drop_id map_append)
  have a: "filter ?P (take n ?S) = []"
    using dS by (auto simp: filter_empty_conv)
  have b: "filter ?P (drop n ?S) = drop n ?S"
    by (auto simp: filter_id_conv)
  have "mset (filter ?P bs) = filter_mset ?P (mset ?S)"
    by (simp add: sort_newest_first_mset)
  also have "\<dots> = filter_mset ?P (mset (take n ?S @ drop n ?S))"
    by simp
  also have "\<dots> = mset (filter ?P (take n ?S)) + mset (filter ?P (drop n ?S))"
    by (simp only: mset_append filter_union_mset mset_filter)
  finally show ?thesis using a b by simp
qed

text \<open>
  C5, as amended. Twelve backup files are in the directory, the retention count in force
  is 10, no file (old or new) is past the age threshold, every removal succeeds, and the
  new copy has a fresh name and the latest modification time. Then one \<open>create_backup\<close>
  returns the new file's name and leaves exactly ten backup files, the new one among
  them; exactly three of the twelve earlier files are gone, none of them newer than any
  backup that stays; files that are not backups are untouched.
\<close>

theorem create_backup_keeps_ten_newest:
  assumes ex: "db_exists env" "copy_ok env" "dir_exists fs"
    and dist: "distinct (map fst (entries fs))"
    and twelve: "length (filter (\<lambda>e. is_backup_name (fst e)) (entries fs)) = 12"
    and fresh: "backup_filename (timestamp env) \<notin> fst ` set (entries fs)"
    and ten: "arg_or_config None (max_backup_files config) 10 = 10"
    and age: "\<forall>e\<in>set (entries fs). within_age config (clock env) (snd e)"
             "within_age config (clock env) (src_mtime env)"
    and del: "set (undeletable fs) \<inter> fst ` set (entries fs) = {}"
    and newest: "\<forall>e\<in>set (entries fs). snd e < src_mtime env"
  shows "fst (create_backup config env fs) = Some (backup_filename (timestamp env))
       \<and> length (filter (\<lambda>e. is_backup_name (fst e)) (entries (snd (create_backup config env fs)))) = 10
       \<and> (backup_filename (timestamp env), src_mtime env) \<in> set (entries (snd (create_backup config env fs)))
       \<and> length (filter (\<lambda>e. is_backup_name (fst e) \<and> e \<notin> set (entries (snd (create_backup config env fs))))
                  (entries fs)) = 3
       \<and> (\<forall>r\<in>set (entries fs). \<forall>k\<in>set (entries (snd (create_backup config env fs))).
             is_backup_name (fst r) \<and> r \<notin> set (entries (snd (create_backup config env fs)))
                \<and> is_backup_name (fst k) \<longrightarrow> snd r \<le> snd k)
       \<and> filter (\<lambda>e. \<not> is_backup_name (fst e)) (entries (snd (create_backup config env fs)))
           = filter (\<lambda>e. \<not> is_backup_name (fst e)) (entries fs)"
proof -
  let ?name = "backup_filename (timestamp env)"
  let ?new = "(?name, src_mtime env)"
  let ?es1 = "entries fs @ [?new]"
  let ?old = "filter (\<lambda>e. is_backup_name (fst e)) (entries fs)"
  let ?bs = "?old @ [?new]"
  let ?S = "sort_newest_first ?bs"
  let ?D = "fst ` set (drop 10 ?S)"
  let ?fs1 = "copy2 ?name (src_mtime env) fs"
  have fs1: "?fs1 = fs\<lparr>entries := ?es1\<rparr>"
    using fresh by (simp add: copy2_def)
  have bs: "filter (\<lambda>e. is_backup_name (fst e)) ?es1 = ?bs"
    by (simp add: is_backup_name_new)
  have noage: "filter (\<lambda>b. snd b < clock env - real_of_int (arg_or_config None (backup_retention_days config) 30 * 86400)) ?bs = []"
    if "arg_or_config None (backup_retention_days config) 30 > 0"
    using age that by (auto simp: within_age_def Let_def filter_empty_conv)
  have Dsub: "set (map fst (drop 10 ?S)) \<subseteq> fst ` set ?es1"
  proof -
    have "set (drop 10 ?S) \<subseteq> set ?S" by (rule set_drop_subset)
    also have "\<dots> = set ?bs" by (simp add: sort_newest_first_def)
    also have "\<dots> \<subseteq> set ?es1" by auto
    finally show ?thesis by auto
  qed
  have res: "create_backup config env fs =
        (Some ?name, remove_all (map fst (drop 10 ?S)) (fs\<lparr>entries := ?es1\<rparr>))"
    using ex ten noage
    by (simp add: create_backup_def clean_old_backups_def Let_def fs1 bs del: filter_append filter.simps)
  have dbs: "distinct (map fst ?bs)"
    using dist fresh by (auto simp: distinct_map_filter)
  have lenS: "length ?S = 13"
    using twelve by (simp add: sort_newest_first_def)
  have setS: "set ?S = set ?bs"
    by (simp add: sort_newest_first_def)
  have dS: "distinct (map fst ?S)"
    using dbs by (rule distinct_names_sorted)
  have inj: "a = b" if "a \<in> set ?bs" "b \<in> set ?bs" "fst a = fst b" for a b
    using dbs that by (meson distinct_map inj_onD)
  have new_kept: "?new \<notin> set (drop 10 ?S)"
  proof
    assume nd: "?new \<in> set (drop 10 ?S)"
    have ne: "take 10 ?S \<noteq> []" using lenS by auto
    then obtain k where k: "k \<in> set (take 10 ?S)" by (meson last_in_set)
    have le: "snd ?new \<le> snd k" using kept_newer_than_dropped[OF k nd] .
    have "distinct ?S"
      using dS by (simp add: distinct_map)
    then have "set (take 10 ?S) \<inter> set (drop 10 ?S) = {}"
      by (rule set_take_disj_set_drop_if_distinct) simp
    then have "k \<noteq> ?new" using k nd by auto
    moreover have "k \<in> set ?bs" using in_set_takeD[OF k] unfolding setS .
    ultimately have "k \<in> set (entries fs)" by auto
    then have "snd k < src_mtime env" using newest by blast
    then show False using le by simp
  qed
  have name_notD: "?name \<notin> ?D"
  proof
    assume "?name \<in> ?D"
    then obtain e where e: "e \<in> set (drop 10 ?S)" "fst e = ?name" by auto
    have "e \<in> set ?bs" using in_set_dropD[OF e(1)] unfolding setS .
    then have "e = ?new" using inj[of e ?new] e(2) by simp
    then show False using e(1) new_kept by simp
  qed
  have Dold: "?D \<subseteq> fst ` set ?old"
  proof
    fix x assume "x \<in> ?D"
    then obtain e where e: "e \<in> set (drop 10 ?S)" "fst e = x" by auto
    have "e \<in> set ?bs" using in_set_dropD[OF e(1)] unfolding setS .
    moreover have "e \<noteq> ?new" using e(1) new_kept by auto
    ultimately show "x \<in> fst ` set ?old" using e(2) by auto
  qed
  have "set (map fst (drop 10 ?S)) \<inter> set (undeletable (fs\<lparr>entries := ?es1\<rparr>)) = {}"
    using Dold del by auto
  from remove_all_entries[OF this]
  have R: "entries (snd (create_backup config env fs)) = filter (\<lambda>e. fst e \<notin> ?D) ?es1"
    by (simp add: res)
  let ?R = "filter (\<lambda>e. fst e \<notin> ?D) ?es1"
  have Rbs: "filter (\<lambda>e. is_backup_name (fst e)) ?R = filter (\<lambda>e. fst e \<notin> ?D) ?bs"
    using name_notD by (simp add: is_backup_name_new conj_commute)
  have c1: "fst (create_backup config env fs) = Some ?name"
    by (simp add: res)
  have c2: "length (filter (\<lambda>e. is_backup_name (fst e)) ?R) = 10"
  proof -
    have "size (mset (filter (\<lambda>e. fst e \<notin> ?D) ?bs)) = size (mset (take 10 ?S))"
      using prune_keeps_take[OF dbs, of 10] by simp
    then show ?thesis using lenS by (simp only: Rbs size_mset length_take)
  qed
  have c3: "?new \<in> set ?R"
    using name_notD by simp
  have inR: "e \<notin> set ?R \<longleftrightarrow> fst e \<in> ?D" if "e \<in> set (entries fs)" for e
  proof -
    have "e \<in> set ?es1" using that by simp
    then show ?thesis by (simp only: set_filter mem_Collect_eq) blast
  qed
  have c4: "length (filter (\<lambda>e. is_backup_name (fst e) \<and> e \<notin> set ?R) (entries fs)) = 3"
  proof -
    have "filter (\<lambda>e. is_backup_name (fst e) \<and> e \<notin> set ?R) (entries fs)
          = filter (\<lambda>e. is_backup_name (fst e) \<and> fst e \<in> ?D) (entries fs)"
      using inR by (intro filter_cong) auto
    also have "\<dots> = filter (\<lambda>e. fst e \<in> ?D) ?old"
      by (simp add: conj_commute)
    also have "\<dots> = filter (\<lambda>e. fst e \<in> ?D) ?bs"
      using name_notD by simp
    finally have "size (mset (filter (\<lambda>e. is_backup_name (fst e) \<and> e \<notin> set ?R) (entries fs)))
                  = size (mset (drop 10 ?S))"
      using prune_drops_drop[OF dbs, of 10] by simp
    then show ?thesis using lenS by (simp only: size_mset length_drop)
  qed
  have c5: "\<forall>r\<in>set (entries fs). \<forall>k\<in>set ?R.
             is_backup_name (fst r) \<and> r \<notin> set ?R \<and> is_backup_name (fst k) \<longrightarrow> snd r \<le> snd k"
  proof (intro ballI impI)
    fix r k
    assume r: "r \<in> set (entries fs)" and k: "k \<in> set ?R"
      and h: "is_backup_name (fst r) \<and> r \<notin> set ?R \<and> is_backup_name (fst k)"
    have rbs: "r \<in> set ?bs" using r h by simp
    have "fst r \<in> ?D" using inR[OF r] h by simp
    then obtain e where e: "e \<in> set (drop 10 ?S)" "fst e = fst r" by auto
    have "e \<in> set ?bs" using in_set_dropD[OF e(1)] unfolding setS .
    then have "e = r" using inj[OF _ rbs e(2)] by simp
    then have rd: "r \<in> set (drop 10 ?S)" using e(1) by simp
    have "k \<in> set (filter (\<lambda>e. is_backup_name (fst e)) ?R)"
      using k h by (simp only: set_filter mem_Collect_eq) blast
    then have "k \<in> set (filter (\<lambda>e. fst e \<notin> ?D) ?bs)"
      by (simp only: Rbs)
    then have "k \<in># mset (take 10 ?S)"
      using prune_keeps_take[OF dbs, of 10] by (metis set_mset_mset)
    then have kt: "k \<in> set (take 10 ?S)" by simp
    show "snd r \<le> snd k" using kept_newer_than_dropped[OF kt rd] .
  qed
  have c6: "filter (\<lambda>e. \<not> is_backup_name (fst e)) ?R = filter (\<lambda>e. \<not> is_backup_name (fst e)) (entries fs)"
  proof -
    have "fst e \<notin> ?D" if "\<not> is_backup_name (fst e)" for e :: "string \<times> real"
    proof
      assume "fst e \<in> ?D"
      then have "fst e \<in> fst ` set ?old" using Dold by blast
      then show False using that by auto
    qed
    then show ?thesis
      by (auto simp: is_backup_name_new intro!: filter_cong)
  qed
  show ?thesis
    unfolding R using c1 c2 c3 c4 c5 c6 by blast
qed

lemmas backup_eval = twelve_backups_def thirteenth_day_def default_db_config_def create_backup_def
  clean_old_backups_def arg_or_config_def is_backup_name_def startswith_def endswith_def
  backup_filename_def copy2_def os_remove_def sort_newest_first_def Let_def within_age_def

theorem create_backup_keeps_ten_newest_witness:  "fst (create_backup default_db_config thirteenth_day twelve_backups) = Some ''backup_20240113_030000.db''
   \<and> length (filter (\<lambda>e. is_backup_name (fst e)) (entries (snd (create_backup default_db_config thirteenth_day twelve_backups)))) = 10
   \<and> length (filter (\<lambda>e. is_backup_name (fst e) \<and> e \<notin> set (entries (snd (create_backup default_db_config thirteenth_day twelve_backups))))
                  (entries twelve_backups)) = 3"
proof -
  have h1: "db_exists thirteenth_day" "copy_ok thirteenth_day" "dir_exists twelve_backups"
    by (simp_all add: thirteenth_day_def twelve_backups_def)
  have h2: "distinct (map fst (entries twelve_backups))"
    by (simp add: twelve_backups_def)
  have h3: "length (filter (\<lambda>e. is_backup_name (fst e)) (entries twelve_backups)) = 12"
    by (simp add: twelve_backups_def is_backup_name_def startswith_def endswith_def)
  have h4: "backup_filename (timestamp thirteenth_day) \<notin> fst ` set (entries twelve_backups)"
    by (simp add: twelve_backups_def thirteenth_day_def backup_filename_def)
  have h5: "arg_or_config None (max_backup_files default_db_config) 10 = 10"
    by (simp add: default_db_config_def arg_or_config_def)
  have h6: "\<forall>e\<in>set (entries twelve_backups). within_age default_db_config (clock thirteenth_day) (snd e)"
    by (simp add: twelve_backups_def thirteenth_day_def default_db_config_def within_age_def arg_or_config_def)
  have h7: "within_age default_db_config (clock thirteenth_day) (src_mtime thirteenth_day)"
    by (simp add: thirteenth_day_def default_db_config_def within_age_def arg_or_config_def)
  have h8: "set (undeletable twelve_backups) \<inter> fst ` set (entries twelve_backups) = {}"
    by (simp add: twelve_backups_def)
  have h9: "\<forall>e\<in>set (entries twelve_backups). snd e < src_mtime thirteenth_day"
    by (simp add: twelve_backups_def thirteenth_day_def)
  have bn: "backup_filename (timestamp thirteenth_day) = ''backup_20240113_030000.db''"
    by (simp add: thirteenth_day_def backup_filename_def)
  show ?thesis
    using create_backup_keeps_ten_newest[OF h1 h2 h3 h4 h5 h6 h7 h8 h9] unfolding bn by blast
qed

text \<open>
  C5 as stated fails: with twelve backups present, the thirteenth run removes the three
  oldest of them, not two.
\<close>

theorem create_backup_removes_three_counterexample: "map fst (filter (\<lambda>e. e \<notin> set (entries (snd (create_backup default_db_config thirteenth_day twelve_backups))))
          (entries twelve_backups))
       = [''backup_20240101_030000.db'', ''backup_20240102_030000.db'', ''backup_20240103_030000.db'']"
  by (simp add: backup_eval)












section \<open>Schema validation: proofs\<close>

lemma concat_map_Nil: "(\<And>x. x \<in> set xs \<Longrightarrow> f x = []) \<Longrightarrow> concat (map f xs) = []"
  by (induction xs) auto

lemma expected_indices_outside_manifest:
  "t \<notin> set (map fst get_expected_tables) \<Longrightarrow> get_expected_indices t = []"
  by (auto simp: get_expected_indices_def indices_map_def get_expected_tables_def)

text \<open>What the validator reads back decides its verdict: when every manifest table,
  column and expected index is among the names the three catalogue readers return, no
  problem is reported.\<close>

lemma validate_schema_valid_if_read_back:
  assumes tables: "set (map fst get_expected_tables) \<subseteq> set (get_existing_tables c)"
    and columns: "\<forall>entry\<in>set get_expected_tables.
                    set (map fst (snd entry)) \<subseteq> set (get_table_column_names c (fst entry))"
    and indices: "\<forall>t\<in>set (map fst get_expected_tables).
                    set (get_expected_indices t) \<subseteq> set (get_table_indices c t)"
  shows "validate_schema c = (True, [])"
proof -
  have a: "missing_tables_problem (get_existing_tables c) = []"
    using tables by (auto simp: missing_tables_problem_def Let_def filter_empty_conv)
  have b: "missing_columns_problem c entry = []" if "entry \<in> set get_expected_tables" for entry
    using columns that by (auto simp: missing_columns_problem_def Let_def filter_empty_conv)
  have c: "missing_indices_problem c t = []" for t
  proof (cases "t \<in> set (map fst get_expected_tables)")
    case True
    then show ?thesis
      using indices by (auto simp: missing_indices_problem_def Let_def filter_empty_conv)
  next
    case False
    then show ?thesis
      by (simp add: missing_indices_problem_def expected_indices_outside_manifest)
  qed
  have b': "concat (map (missing_columns_problem c)
              (filter (\<lambda>entry. fst entry \<in> set (get_existing_tables c)) get_expected_tables)) = []"
    by (rule concat_map_Nil) (simp add: b)
  have c': "concat (map (missing_indices_problem c) (get_existing_tables c)) = []"
    by (rule concat_map_Nil) (simp add: c)
  show ?thesis
    unfolding validate_schema_def Let_def a b' c' by simp
qed

lemma manifest_names_plain:
  "list_all (\<lambda>t. \<not> like_sqlite t \<and> CHR 0x27 \<notin> set t) (map fst get_expected_tables)"
  by code_simp

lemma manifest_name_plain:
  "t \<in> set (map fst get_expected_tables) \<Longrightarrow> \<not> like_sqlite t \<and> CHR 0x27 \<notin> set t"
  using manifest_names_plain unfolding list_all_iff by blast

text \<open>
  C6, as amended. On a database where the driver accepts the validator's catalogue
  queries (the list of tables, and the column list and index list of every manifest
  table) and whose schema holds every manifest table, every manifest column of each of
  them and every expected index, \<open>validate_schema\<close> returns \<open>(True, [])\<close>, whatever
  else the schema holds.
\<close>

theorem validate_schema_accepts_complete_schema:
  assumes accepted: "ListTables \<notin> set (failing c)"
      "\<forall>t\<in>set (map fst get_expected_tables).
          TableInfo t \<notin> set (failing c) \<and> ListIndices t \<notin> set (failing c)"
    and tables: "\<forall>t\<in>set (map fst get_expected_tables). has_table c t"
    and columns: "\<forall>entry\<in>set get_expected_tables.
                    \<forall>col\<in>set (map fst (snd entry)). has_column c (fst entry) col"
    and indices: "\<forall>t\<in>set (map fst get_expected_tables).
                    \<forall>idx\<in>set (get_expected_indices t). has_index c t idx"
  shows "validate_schema c = (True, [])"
proof (rule validate_schema_valid_if_read_back)
  show "set (map fst get_expected_tables) \<subseteq> set (get_existing_tables c)"
  proof
    fix t assume t: "t \<in> set (map fst get_expected_tables)"
    then obtain r where "r \<in> set (master c)" "fst r = ''table''" "fst (snd r) = t"
      using tables unfolding has_table_def list_ex_iff by blast
    moreover have "\<not> like_sqlite t" using manifest_name_plain[OF t] by simp
    ultimately show "t \<in> set (get_existing_tables c)"
      using accepted(1) by (force simp: get_existing_tables_def execute_query_def)
  qed
next
  show "\<forall>entry\<in>set get_expected_tables.
          set (map fst (snd entry)) \<subseteq> set (get_table_column_names c (fst entry))"
  proof (intro ballI subsetI)
    fix entry col
    assume e: "entry \<in> set get_expected_tables" and col: "col \<in> set (map fst (snd entry))"
    have t: "fst entry \<in> set (map fst get_expected_tables)" using e by simp
    have ok: "TableInfo (fst entry) \<notin> set (failing c)" "CHR 0x27 \<notin> set (fst entry)"
      using accepted(2) t manifest_name_plain[OF t] by blast+
    have "has_column c (fst entry) col" using columns e col by blast
    then show "col \<in> set (get_table_column_names c (fst entry))"
      using ok by (auto simp: has_column_def get_table_column_names_def execute_query_def
                        split: option.splits)
  qed
next
  show "\<forall>t\<in>set (map fst get_expected_tables).
          set (get_expected_indices t) \<subseteq> set (get_table_indices c t)"
  proof (intro ballI subsetI)
    fix t idx
    assume t: "t \<in> set (map fst get_expected_tables)" and idx: "idx \<in> set (get_expected_indices t)"
    have ok: "ListIndices t \<notin> set (failing c)" "CHR 0x27 \<notin> set t"
      using accepted(2) t manifest_name_plain[OF t] by blast+
    have "has_index c t idx" using indices t idx by blast
    then obtain r where "r \<in> set (master c)" "fst r = ''index''" "fst (snd r) = idx" "snd (snd r) = t"
      unfolding has_index_def list_ex_iff by blast
    then show "idx \<in> set (get_table_indices c t)"
      using ok by (force simp: get_table_indices_def execute_query_def)
  qed
qed

theorem validate_schema_accepts_complete_schema_witness:
  "validate_schema complete_catalog = (True, [])
   \<and> has_table complete_catalog ''sessoes''
   \<and> has_column complete_catalog ''usuarios'' ''ultima_atividade''
   \<and> has_index complete_catalog ''usuarios'' ''idx_usuarios_nome''"
proof -
  have h1: "ListTables \<notin> set (failing complete_catalog)"
    "\<forall>t\<in>set (map fst get_expected_tables).
          TableInfo t \<notin> set (failing complete_catalog) \<and> ListIndices t \<notin> set (failing complete_catalog)"
    by (simp_all add: complete_catalog_def)
  have h2: "\<forall>t\<in>set (map fst get_expected_tables). has_table complete_catalog t"
    by code_simp
  have h3: "\<forall>entry\<in>set get_expected_tables.
              \<forall>col\<in>set (map fst (snd entry)). has_column complete_catalog (fst entry) col"
    by code_simp
  have h4: "\<forall>t\<in>set (map fst get_expected_tables).
              \<forall>idx\<in>set (get_expected_indices t). has_index complete_catalog t idx"
    by code_simp
  have e: "has_table complete_catalog ''sessoes''"
    "has_column complete_catalog ''usuarios'' ''ultima_atividade''"
    "has_index complete_catalog ''usuarios'' ''idx_usuarios_nome''"
    by code_simp+
  show ?thesis
    using validate_schema_accepts_complete_schema[OF h1 h2 h3 h4] e by simp
qed

text \<open>
  C6 as stated fails: on the same complete schema, when the driver rejects the query
  that lists the tables, \<open>execute\<close> returns \<open>None\<close>, the validator reads an empty
  list and reports the tables as missing.
\<close>

theorem validate_schema_rejected_query_counterexample:
  "list_all (has_table complete_catalog_locked) (map fst get_expected_tables)
   \<and> list_all (\<lambda>entry. list_all (has_column complete_catalog_locked (fst entry)) (map fst (snd entry)))
        get_expected_tables
   \<and> list_all (\<lambda>t. list_all (has_index complete_catalog_locked t) (get_expected_indices t))
        (map fst get_expected_tables)
   \<and> validate_schema complete_catalog_locked
       = (False,
          [MissingTables
             [''territorios'', ''ruas'', ''imoveis'', ''unidades'', ''saidas_campo'',
              ''designacoes'', ''atendimentos'', ''historico_predios_vilas'',
              ''designacoes_predios_vilas'', ''usuarios'', ''log_atividades'', ''notificacoes'',
              ''relatorios'']])"
  by code_simp

text \<open>
  C4 does not hold of the code. \<open>execute\<close> turns a driver error into \<open>None\<close>, and
  \<open>fix_schema_issues\<close> never looks at that value: on an empty database where the driver
  rejects every schema file, all three files are run and logged as executed, and the
  failure only shows in the second validation.
\<close>

theorem fix_schema_issues_ignores_driver_error:
  "fix_schema_issues every_script_rejected empty_catalog =
     ((False,
       [ExecutedFile ''schema_base.sql'', ExecutedFile ''schema_usuarios.sql'',
        ExecutedFile ''schema_relatorios.sql'', ProblemsPersist,
        Remaining (MissingTables
          [''territorios'', ''ruas'', ''imoveis'', ''unidades'', ''saidas_campo'',
           ''designacoes'', ''atendimentos'', ''historico_predios_vilas'',
           ''designacoes_predios_vilas'', ''usuarios'', ''log_atividades'', ''notificacoes'',
           ''relatorios''])]),
      empty_catalog)"
  by code_simp

text \<open>Only an exception that reaches the handler stops the loop at once.\<close>

lemma run_schema_files_stops_when_raised:
  "run schema_file c = Raised \<Longrightarrow>
   run_schema_files run (schema_file # rest) acoes c = Inl (acoes @ [ErrorExecuting schema_file], c)"
  by simp

section \<open>Password hashes and authentication: proofs\<close>

lemma split_on_nonempty [simp]: "split_on sep s \<noteq> []"
  by (induction s) (auto split: list.splits)

lemma split_on_no_sep: "sep \<notin> set s \<Longrightarrow> split_on sep s = [s]"
  by (induction s) auto

lemma split_on_head:
  "split_on sep s = p # ps \<Longrightarrow>
     sep \<notin> set p \<and> (if ps = [] then s = p else (\<exists>rest. s = p @ sep # rest \<and> split_on sep rest = ps))"
proof (induction s arbitrary: p ps)
  case Nil
  then show ?case by simp
next
  case (Cons c cs)
  show ?case
  proof (cases "c = sep")
    case True
    then show ?thesis using Cons.prems by auto
  next
    case False
    then obtain q qs where q: "split_on sep cs = q # qs" "p = c # q" "ps = qs"
      using Cons.prems by (auto split: list.splits)
    from Cons.IH[OF q(1)] show ?thesis using False q by auto
  qed
qed

lemma split_on_two:
  "split_on sep s = [a, b] \<longleftrightarrow> s = a @ sep # b \<and> sep \<notin> set a \<and> sep \<notin> set b"
proof
  assume h: "split_on sep s = [a, b]"
  from split_on_head[OF h] obtain rest where r: "sep \<notin> set a" "s = a @ sep # rest" "split_on sep rest = [b]"
    by auto
  from split_on_head[OF r(3)] have "sep \<notin> set b" "rest = b" by auto
  then show "s = a @ sep # b \<and> sep \<notin> set a \<and> sep \<notin> set b" using r by simp
next
  assume h: "s = a @ sep # b \<and> sep \<notin> set a \<and> sep \<notin> set b"
  have "split_on sep (a @ sep # b) = a # split_on sep b" if "sep \<notin> set a" for a
    using that by (induction a) auto
  then show "split_on sep s = [a, b]" using h by (simp add: split_on_no_sep)
qed

lemma verify_body_iff:
  "verify_body kdf senha h \<longleftrightarrow>
     (\<exists>salt_str hash_str salt. h = salt_str @ '':'' @ hash_str
        \<and> CHR '':'' \<notin> set salt_str \<and> CHR '':'' \<notin> set hash_str
        \<and> fromhex salt_str = Some salt \<and> fromhex hash_str = Some (kdf senha salt 100000))"
proof
  assume v: "verify_body kdf senha h"
  then obtain a b where ab: "split_on CHR '':'' h = [a, b]"
    by (auto simp: verify_body_def split: list.splits)
  with v obtain salt where "fromhex a = Some salt" "fromhex b = Some (kdf senha salt 100000)"
    by (auto simp: verify_body_def split: option.splits)
  moreover from ab have "h = a @ '':'' @ b" "CHR '':'' \<notin> set a" "CHR '':'' \<notin> set b"
    by (simp_all add: split_on_two)
  ultimately show "\<exists>salt_str hash_str salt. h = salt_str @ '':'' @ hash_str
        \<and> CHR '':'' \<notin> set salt_str \<and> CHR '':'' \<notin> set hash_str
        \<and> fromhex salt_str = Some salt \<and> fromhex hash_str = Some (kdf senha salt 100000)"
    by blast
next
  assume "\<exists>salt_str hash_str salt. h = salt_str @ '':'' @ hash_str
        \<and> CHR '':'' \<notin> set salt_str \<and> CHR '':'' \<notin> set hash_str
        \<and> fromhex salt_str = Some salt \<and> fromhex hash_str = Some (kdf senha salt 100000)"
  then obtain a b salt where h: "h = a @ '':'' @ b" "CHR '':'' \<notin> set a" "CHR '':'' \<notin> set b"
    "fromhex a = Some salt" "fromhex b = Some (kdf senha salt 100000)" by blast
  then have "split_on CHR '':'' h = [a, b]" by (simp add: split_on_two)
  then show "verify_body kdf senha h" using h by (simp add: verify_body_def)
qed

text \<open>
  C9, as amended. Both checks are total functions to a boolean. They answer \<open>True\<close>
  exactly when the stored text is \<open>salt ':' hash\<close> with a single colon, both parts
  are accepted by \<open>bytes.fromhex\<close> (pairs of hexadecimal digits, ASCII whitespace
  allowed before a pair and at the end, either part possibly empty), and the key derived
  from the password under that salt equals the stored hash bytes. In every other case
  (no hash, an empty text, no or more than one separator, any other character, an odd
  digit) they answer \<open>False\<close>; and the model's method agrees with the service's check.
\<close>

theorem verificar_senha_fails_closed:
  "(AuthService_verificar_senha kdf senha stored \<longleftrightarrow>
      (\<exists>salt_str hash_str salt. stored = Some (salt_str @ '':'' @ hash_str)
         \<and> CHR '':'' \<notin> set salt_str \<and> CHR '':'' \<notin> set hash_str
         \<and> fromhex salt_str = Some salt \<and> fromhex hash_str = Some (kdf senha salt 100000)))
   \<and> verificar_senha kdf u senha = AuthService_verificar_senha kdf senha (us_senha_hash u)"
proof
  show "AuthService_verificar_senha kdf senha stored \<longleftrightarrow>
      (\<exists>salt_str hash_str salt. stored = Some (salt_str @ '':'' @ hash_str)
         \<and> CHR '':'' \<notin> set salt_str \<and> CHR '':'' \<notin> set hash_str
         \<and> fromhex salt_str = Some salt \<and> fromhex hash_str = Some (kdf senha salt 100000))"
    by (cases stored) (simp_all add: AuthService_verificar_senha_def verify_body_iff)
  have "\<not> verify_body kdf senha []" by (simp add: verify_body_def)
  then show "verificar_senha kdf u senha = AuthService_verificar_senha kdf senha (us_senha_hash u)"
    by (auto simp: verificar_senha_def AuthService_verificar_senha_def split: option.splits)
qed

lemma hex_digits_all:
  "list_all (\<lambda>n. hexval (hex_digit n) = Some n \<and> \<not> is_space (hex_digit n) \<and> hex_digit n \<noteq> CHR '':'')
     [0..<16]"
  by code_simp

lemma hex_digit_props:
  "n < 16 \<Longrightarrow> hexval (hex_digit n) = Some n \<and> \<not> is_space (hex_digit n) \<and> hex_digit n \<noteq> CHR '':''"
  using hex_digits_all by (simp only: list_all_iff) (simp del: upt_Suc)


lemma byte_from_nibbles: "word_of_nat (unat b div 16 * 16 + unat b mod 16) = (b :: byte)"
  by simp

lemma unat_byte_div: "unat (b :: byte) div 16 < 16"
  using unsigned_less[of b, where 'a = nat] by (simp add: less_mult_imp_div_less)

lemma fromhex_hex_append: "fromhex (hex bs @ rest) = map_option (\<lambda>r. bs @ r) (fromhex rest)"
proof (induction bs)
  case Nil
  then show ?case by (simp add: hex_def option.map_ident)
next
  case (Cons b bs)
  have "fromhex (hex (b # bs) @ rest)
        = (case fromhex (hex bs @ rest) of None \<Rightarrow> None | Some r \<Rightarrow> Some (b # r))"
    using hex_digit_props[OF unat_byte_div[of b]] hex_digit_props[of "unat b mod 16"]
    by (simp add: hex_def split: option.splits)
  then show ?case using Cons.IH by (simp split: option.splits add: option.map_comp)
qed

lemma fromhex_hex: "fromhex (hex bs) = Some bs"
  using fromhex_hex_append[of bs "[]"] by simp

text \<open>Whatever the key derivation is, a blank after the salt of a well-formed hash is
  accepted.\<close>

lemma verify_accepts_space_after_salt:
  "AuthService_verificar_senha kdf senha (Some (hex salt @ '' :'' @ hex (kdf senha salt 100000)))"
proof -
  have "CHR '':'' \<notin> set (hex bs @ '' '')" for bs :: "byte list"
  proof (induction bs)
    case Nil
    then show ?case by (simp add: hex_def)
  next
    case (Cons b bs)
    show ?case
      using Cons hex_digit_props[OF unat_byte_div[of b]] hex_digit_props[of "unat b mod 16"]
      by (auto simp: hex_def)
  qed
  then have n1: "CHR '':'' \<notin> set (hex salt @ '' '')" and n2: "CHR '':'' \<notin> set (hex (kdf senha salt 100000))"
    by auto
  have f1: "fromhex (hex salt @ '' '') = Some salt"
    by (simp add: fromhex_hex_append is_space_def)
  have "verify_body kdf senha ((hex salt @ '' '') @ '':'' @ hex (kdf senha salt 100000))"
    unfolding verify_body_iff using n1 n2 f1 fromhex_hex by blast
  then show ?thesis by (simp add: AuthService_verificar_senha_def)
qed


lemma AuthService_verificar_senha_iff:
  "AuthService_verificar_senha kdf senha stored \<longleftrightarrow>
      (\<exists>salt_str hash_str salt. stored = Some (salt_str @ '':'' @ hash_str)
         \<and> CHR '':'' \<notin> set salt_str \<and> CHR '':'' \<notin> set hash_str
         \<and> fromhex salt_str = Some salt \<and> fromhex hash_str = Some (kdf senha salt 100000))"
  by (cases stored) (simp_all add: AuthService_verificar_senha_def verify_body_iff)

lemma filter_unique_key:
  "distinct (map f xs) \<Longrightarrow> r \<in> set xs \<Longrightarrow> filter (\<lambda>x. f x = f r \<and> P x) xs = (if P r then [r] else [])"
proof (induction xs)
  case Nil
  then show ?case by simp
next
  case (Cons x xs)
  show ?case
  proof (cases "x = r")
    case True
    then have "f r \<notin> f ` set xs" using Cons.prems by auto
    then have "filter (\<lambda>x. f x = f r \<and> P x) xs = []"
      by (simp only: filter_empty_conv) (metis imageI)
    then show ?thesis using True by simp
  next
    case False
    then have "r \<in> set xs" "f x \<noteq> f r" using Cons.prems by auto
    then show ?thesis using Cons by simp
  qed
qed

lemma authenticate_cases:
  "fetch_usuarios rejects (SelectUsuarioAtivoByEmail email) db = Some (r # rest) \<Longrightarrow>
   AuthService_verificar_senha kdf senha (us_senha_hash r) \<Longrightarrow>
   \<exists>tok db'. authenticate rejects kdf cs email senha db = ((True, Some (r, tok)), db')"
  by (simp add: authenticate_def Let_def split: prod.splits option.splits)

text \<open>
  C3, as amended. When the driver accepts the lookup and no two users share an email,
  \<open>authenticate\<close> succeeds exactly when an active user with that email exists and the
  stored hash is \<open>salt ':' hash\<close>, read by \<open>bytes.fromhex\<close>, with the key derived
  from the password under that salt equal to the stored hash; on success the answer
  carries that user's row and a token; in every other case the answer is
  \<open>(False, None)\<close> and the database is as before.
\<close>

theorem authenticate_exactly_when_credentials_match:
  assumes ok: "\<not> rejects (SelectUsuarioAtivoByEmail email)"
    and uniq: "distinct (map us_email (usuarios db))"
  shows "(fst (fst (authenticate rejects kdf cs email senha db)) \<longleftrightarrow>
            (\<exists>r\<in>set (usuarios db). us_email r = email \<and> us_ativo r
               \<and> (\<exists>salt_str hash_str salt. us_senha_hash r = Some (salt_str @ '':'' @ hash_str)
                     \<and> CHR '':'' \<notin> set salt_str \<and> CHR '':'' \<notin> set hash_str
                     \<and> fromhex salt_str = Some salt
                     \<and> fromhex hash_str = Some (kdf senha salt 100000))))
       \<and> (fst (fst (authenticate rejects kdf cs email senha db)) \<longrightarrow>
            (\<exists>r\<in>set (usuarios db). \<exists>token. us_email r = email \<and> us_ativo r
               \<and> snd (fst (authenticate rejects kdf cs email senha db)) = Some (r, token)))
       \<and> (\<not> fst (fst (authenticate rejects kdf cs email senha db)) \<longrightarrow>
            authenticate rejects kdf cs email senha db = ((False, None), db))"
proof -
  let ?res = "authenticate rejects kdf cs email senha db"
  let ?rows = "filter (\<lambda>r. us_email r = email \<and> us_ativo r) (usuarios db)"
  have fetch: "fetch_usuarios rejects (SelectUsuarioAtivoByEmail email) db = Some ?rows"
    using ok by (simp add: fetch_usuarios_def)
  have rows: "?rows = (if us_ativo r then [r] else [])" if "r \<in> set (usuarios db)" "us_email r = email" for r
    using filter_unique_key[OF uniq that(1), of us_ativo] that(2) by simp
  show ?thesis
  proof (cases "\<exists>r\<in>set (usuarios db). us_email r = email \<and> us_ativo r")
    case True
    then obtain r where r: "r \<in> set (usuarios db)" "us_email r = email" "us_ativo r" by blast
    have fr: "?rows = [r]" using rows[OF r(1,2)] r(3) by simp
    have only: "r' = r" if "r' \<in> set (usuarios db)" "us_email r' = email" for r'
      using uniq that r by (metis distinct_map inj_onD)
    show ?thesis
    proof (cases "AuthService_verificar_senha kdf senha (us_senha_hash r)")
      case True
      from authenticate_cases[of rejects email db r "[]" kdf senha cs] fetch fr True
      obtain tok db' where res: "?res = ((True, Some (r, tok)), db')" by auto
      have "\<exists>r\<in>set (usuarios db). us_email r = email \<and> us_ativo r
               \<and> (\<exists>salt_str hash_str salt. us_senha_hash r = Some (salt_str @ '':'' @ hash_str)
                     \<and> CHR '':'' \<notin> set salt_str \<and> CHR '':'' \<notin> set hash_str
                     \<and> fromhex salt_str = Some salt
                     \<and> fromhex hash_str = Some (kdf senha salt 100000))"
        using r True unfolding AuthService_verificar_senha_iff by blast
      then show ?thesis using res r by auto
    next
      case False
      have res: "?res = ((False, None), db)"
        using fetch fr False by (simp add: authenticate_def)
      have "\<not> (\<exists>r\<in>set (usuarios db). us_email r = email \<and> us_ativo r
               \<and> (\<exists>salt_str hash_str salt. us_senha_hash r = Some (salt_str @ '':'' @ hash_str)
                     \<and> CHR '':'' \<notin> set salt_str \<and> CHR '':'' \<notin> set hash_str
                     \<and> fromhex salt_str = Some salt
                     \<and> fromhex hash_str = Some (kdf senha salt 100000)))"
        using False only unfolding AuthService_verificar_senha_iff by blast
      then show ?thesis using res by simp
    qed
  next
    case False
    then have "?rows = []" by (auto simp: filter_empty_conv)
    then have res: "?res = ((False, None), db)"
      using fetch by (simp add: authenticate_def)
    then show ?thesis using False by auto
  qed
qed

section \<open>Entities: proofs\<close>

lemma Designacao_validate_status:
  "Designacao_validate vrf d = [] \<Longrightarrow> de_status d \<in> set [''ativo'', ''concluido'']"
  by (auto simp: Designacao_validate_def split: if_splits)

lemma concluir_valid_statuses:
  "valid_statuses db \<Longrightarrow> valid_statuses (snd (snd (concluir rejects d db)))"
  by (auto simp: concluir_def valid_statuses_def execute_def Let_def list_all_iff split: option.splits)

lemma Designacao_save_valid_statuses:
  "valid_statuses db \<Longrightarrow> valid_statuses (snd (snd (Designacao_save rejects vrf d db)))"
  using Designacao_validate_status[of vrf d]
  by (auto simp: Designacao_save_def valid_statuses_def execute_def Let_def list_all_iff
           split: option.splits)

text \<open>
  C8, as amended. For an assignment with an id, a \<open>concluir\<close> whose update the driver
  accepts returns \<open>True\<close> and leaves the status \<open>concluido\<close> in the object and in
  every stored row of that id; a second call whose update is accepted returns \<open>True\<close>
  again and changes neither the object nor the database. \<open>concluir\<close> and \<open>save\<close>
  keep every stored status within \<open>ativo\<close> and \<open>concluido\<close>.
\<close>

theorem concluir_idempotent:
  assumes id: "de_id d = Some k"
    and ok1: "\<not> rejects1 (ConcluirDesignacao k)"
    and ok2: "\<not> rejects2 (ConcluirDesignacao k)"
  shows "fst (concluir rejects1 d db)
       \<and> de_status (fst (snd (concluir rejects1 d db))) = ''concluido''
       \<and> concluir rejects2 (fst (snd (concluir rejects1 d db))) (snd (snd (concluir rejects1 d db)))
           = (True, fst (snd (concluir rejects1 d db)), snd (snd (concluir rejects1 d db)))
       \<and> list_all (\<lambda>r. de_id r = Some k \<longrightarrow> de_status r = ''concluido'')
            (designacoes (snd (snd (concluir rejects1 d db))))
       \<and> (valid_statuses db \<longrightarrow> valid_statuses (snd (snd (concluir rejects1 d db))))
       \<and> (valid_statuses db \<longrightarrow> valid_statuses (snd (snd (Designacao_save rejects1 vrf d db))))"
proof -
  have idem: "map (\<lambda>r. if de_id r = Some k then r\<lparr>de_status := ''concluido''\<rparr> else r)
                (map (\<lambda>r. if de_id r = Some k then r\<lparr>de_status := ''concluido''\<rparr> else r) rows)
              = map (\<lambda>r. if de_id r = Some k then r\<lparr>de_status := ''concluido''\<rparr> else r) rows"
    for rows :: "designacao list"
    by (induction rows) auto
  have c1: "concluir rejects1 d db =
      (True, d\<lparr>de_status := ''concluido''\<rparr>,
       db\<lparr>designacoes := map (\<lambda>r. if de_id r = Some k then r\<lparr>de_status := ''concluido''\<rparr> else r)
                             (designacoes db)\<rparr>)"
    using id ok1 by (simp add: concluir_def execute_def Let_def)
  have c2: "concluir rejects2 (fst (snd (concluir rejects1 d db))) (snd (snd (concluir rejects1 d db)))
           = (True, fst (snd (concluir rejects1 d db)), snd (snd (concluir rejects1 d db)))"
    unfolding c1 using id ok2 by (simp add: concluir_def execute_def Let_def idem)
  have c3: "list_all (\<lambda>r. de_id r = Some k \<longrightarrow> de_status r = ''concluido'')
            (designacoes (snd (snd (concluir rejects1 d db))))"
    by (auto simp: c1 list_all_iff)
  have c0: "fst (concluir rejects1 d db) \<and> de_status (fst (snd (concluir rejects1 d db))) = ''concluido''"
    by (simp add: c1)
  show ?thesis
    using c0 c2 c3 concluir_valid_statuses Designacao_save_valid_statuses by blast
qed

text \<open>
  C2. For Imovel, Usuario, Atendimento and Designacao alike: when \<open>validate\<close> yields
  a message, \<open>save\<close> returns \<open>False\<close> and the object and the database are as
  before, whatever the driver would have accepted: no statement is sent.
\<close>

theorem invalid_entity_is_not_saved:
  "(Imovel_validate vrf i \<noteq> [] \<longrightarrow> Imovel_save rejects vrf i db = (Returned False, i, db))
   \<and> (Usuario_validate vrf u \<noteq> [] \<longrightarrow> Usuario_save rejects vrf u db = (Returned False, u, db))
   \<and> (Atendimento_validate vrf a \<noteq> [] \<longrightarrow> Atendimento_save rejects vrf a db = (False, a, db))
   \<and> (Designacao_validate vrf d \<noteq> [] \<longrightarrow> Designacao_save rejects vrf d db = (False, d, db))"
  by (simp add: Imovel_save_def Usuario_save_def Atendimento_save_def Designacao_save_def)

lemma Usuario_from_db_row_raises: "Usuario_from_db_row row = Raises TypeError"
  by (simp add: Usuario_from_db_row_def Usuario_init_def BaseModel_init_def)

lemma fold_max_ge: "(m::nat) \<le> fold max xs m"
  by (induction xs arbitrary: m) (auto intro: order_trans[OF max.cobounded2])

lemma fold_max_mem: "(x::nat) \<in> set xs \<Longrightarrow> x \<le> fold max xs m"
proof (induction xs arbitrary: m)
  case Nil
  then show ?case by simp
next
  case (Cons y ys)
  show ?case
  proof (cases "x = y")
    case True
    have "max y m \<le> fold max ys (max y m)" by (rule fold_max_ge)
    then show ?thesis using True by simp
  next
    case False
    then show ?thesis using Cons by simp
  qed
qed

lemma next_id_fresh: "Some (next_id ids) \<notin> set ids"
proof
  assume "Some (next_id ids) \<in> set ids"
  then have "next_id ids \<in> set (map (\<lambda>i. case i of None \<Rightarrow> 0 | Some k \<Rightarrow> k) ids)"
    by force
  then have "next_id ids \<le> fold max (map (\<lambda>i. case i of None \<Rightarrow> 0 | Some k \<Rightarrow> k) ids) 0"
    by (rule fold_max_mem)
  then show False by (simp add: next_id_def)
qed

lemma distinct_replace_one:
  assumes "distinct (map f rows)" "distinct (map g rows)" "e \<notin> g ` set rows"
  shows "distinct (map (\<lambda>r. if f r = a then e else g r) rows)"
  using assms
proof (induction rows)
  case Nil
  then show ?case by simp
next
  case (Cons r rs)
  have ih: "distinct (map (\<lambda>r. if f r = a then e else g r) rs)"
    using Cons by simp
  have "(if f r = a then e else g r) \<noteq> (if f x = a then e else g x)" if x: "x \<in> set rs" for x
  proof (cases "f r = a")
    case True
    then have "f x \<noteq> a" using Cons.prems(1) x by (metis distinct.simps(2) image_eqI list.simps(9) set_map)
    moreover have "e \<noteq> g x" using Cons.prems(3) x by auto
    ultimately show ?thesis using True by simp
  next
    case False
    have "g r \<noteq> e" using Cons.prems(3) by auto
    moreover have "g r \<noteq> g x" using Cons.prems(2) x by (metis distinct.simps(2) image_eqI list.simps(9) set_map)
    ultimately show ?thesis using False by simp
  qed
  then have "(if f r = a then e else g r) \<notin> set (map (\<lambda>r. if f r = a then e else g r) rs)"
    by (simp only: set_map image_iff) blast
  then show ?case using ih by (simp only: list.map distinct.simps) blast
qed

lemma update_emails:
  "map us_email (map (\<lambda>r. if us_id r = Some k
                       then r\<lparr>us_nome := a, us_email := b, us_senha_hash := c,
                              us_nivel_permissao := d, us_ativo := e\<rparr>
                       else r) rows) = map (\<lambda>r. if us_id r = Some k then b else us_email r) rows"
  by (induction rows) auto

lemma update_keeps_ids:
  "map us_id (map (\<lambda>r. if us_id r = Some k
                       then r\<lparr>us_nome := a, us_email := b, us_senha_hash := c,
                              us_nivel_permissao := d, us_ativo := e\<rparr>
                       else r) rows) = map us_id rows"
  by (induction rows) auto

text \<open>
  When the driver accepts the lookup by email, \<open>Usuario.save\<close> keeps emails (and ids)
  pairwise distinct, for an insert and for an update; and when another user holds the
  email, nothing is inserted or updated.
\<close>

lemma Usuario_save_emails_stay_distinct:
  assumes pk: "distinct (map us_id (usuarios db))"
    and uniq: "distinct (map us_email (usuarios db))"
    and ok: "\<not> rejects (SelectUsuarioByEmail (us_email u))"
  shows "distinct (map us_email (usuarios (snd (snd (Usuario_save rejects vrf u db)))))
       \<and> distinct (map us_id (usuarios (snd (snd (Usuario_save rejects vrf u db)))))
       \<and> ((\<exists>r\<in>set (usuarios db). us_email r = us_email u \<and> us_id r \<noteq> us_id u) \<longrightarrow>
             snd (snd (Usuario_save rejects vrf u db)) = db
             \<and> fst (Usuario_save rejects vrf u db) \<noteq> Returned True)"
proof -
  let ?res = "Usuario_save rejects vrf u db"
  let ?rows = "filter (\<lambda>r. us_email r = us_email u) (usuarios db)"
  let ?holder = "\<exists>r\<in>set (usuarios db). us_email r = us_email u \<and> us_id r \<noteq> us_id u"
  have fetch: "fetch_usuarios rejects (SelectUsuarioByEmail (us_email u)) db = Some ?rows"
    using ok by (simp add: fetch_usuarios_def)
  have unchanged: "?thesis" if "snd (snd ?res) = db" "fst ?res \<noteq> Returned True"
    using that pk uniq by simp
  show ?thesis
  proof (cases "Usuario_validate vrf u \<noteq> []")
    case True
    then have "?res = (Returned False, u, db)"
      by (simp add: Usuario_save_def)
    then show ?thesis by (intro unchanged) simp_all
  next
    case valid: False
    show ?thesis
    proof (cases ?rows)
      case (Cons row rest)
      then have g: "get_by_email rejects (us_email u) db = Raises TypeError"
        using fetch by (simp add: get_by_email_def Usuario_from_db_row_raises)
      have "?res = (Raises TypeError, u, db)"
        using valid g by (simp add: Usuario_save_def split: option.splits)
      then show ?thesis by (intro unchanged) simp_all
    next
      case Nil
      then have free: "us_email u \<notin> us_email ` set (usuarios db)"
        by (simp only: filter_empty_conv) (metis imageE)
      have g: "get_by_email rejects (us_email u) db = Returned None"
        using fetch Nil by (simp add: get_by_email_def)
      have no_holder: "\<not> ?holder"
        using free by (metis image_eqI)
      have "distinct (map us_email (usuarios (snd (snd ?res))))
            \<and> distinct (map us_id (usuarios (snd (snd ?res))))"
      proof (cases "us_id u")
        case None
        show ?thesis
        proof (cases "rejects (InsertUsuario u)")
          case True
          then have "?res = (Returned False, u, db)"
            using valid g None by (simp add: Usuario_save_def execute_def)
          then show ?thesis using pk uniq by simp
        next
          case False
          then have "usuarios (snd (snd ?res))
                = usuarios db @ [u\<lparr>us_id := Some (next_id (map us_id (usuarios db))), us_data_criacao := None\<rparr>]"
            using valid g None by (simp add: Usuario_save_def execute_def Let_def)
          then show ?thesis
            using pk uniq free next_id_fresh[of "map us_id (usuarios db)"] by simp
        qed
      next
        case (Some k)
        show ?thesis
        proof (cases "rejects (UpdateUsuario u k)")
          case True
          then have "?res = (Returned False, u, db)"
            using valid g Some by (simp add: Usuario_save_def execute_def)
          then show ?thesis using pk uniq by simp
        next
          case False
          then have "usuarios (snd (snd ?res))
                = map (\<lambda>r. if us_id r = Some k
                       then r\<lparr>us_nome := us_nome u, us_email := us_email u,
                              us_senha_hash := us_senha_hash u,
                              us_nivel_permissao := us_nivel_permissao u, us_ativo := us_ativo u\<rparr>
                       else r) (usuarios db)"
            using valid g Some by (simp add: Usuario_save_def execute_def Let_def)
          then show ?thesis
            using distinct_replace_one[OF pk uniq free, of "Some k"] pk
            by (simp only: update_keeps_ids update_emails)
        qed
      qed
      then show ?thesis using no_holder by blast
    qed
  qed
qed

text \<open>
  C7 does not hold of the code. \<open>get_by_email\<close> builds an object from the row it
  finds, and \<open>Usuario.__init__\<close> passes \<open>id\<close> positionally to
  \<open>BaseModel.__init__\<close>, which takes keywords only. So whenever a stored row holds the
  email and the driver accepts the lookup, \<open>save\<close> of a valid user raises
  \<open>TypeError\<close> instead of returning \<open>False\<close>; nothing is written. This is so for an
  insert, and for an update that keeps the user's own email.
\<close>

theorem Usuario_save_raises_when_email_held:
  assumes valid: "Usuario_validate vrf u = []"
    and ok: "\<not> rejects (SelectUsuarioByEmail (us_email u))"
    and held: "\<exists>r\<in>set (usuarios db). us_email r = us_email u"
  shows "Usuario_save rejects vrf u db = (Raises TypeError, u, db)"
proof -
  have "filter (\<lambda>r. us_email r = us_email u) (usuarios db) \<noteq> []"
    using held by (simp add: filter_empty_conv)
  then obtain row rest where "filter (\<lambda>r. us_email r = us_email u) (usuarios db) = row # rest"
    by (cases "filter (\<lambda>r. us_email r = us_email u) (usuarios db)") auto
  then have "get_by_email rejects (us_email u) db = Raises TypeError"
    using ok by (simp add: get_by_email_def fetch_usuarios_def Usuario_from_db_row_raises)
  then show ?thesis
    using valid by (simp add: Usuario_save_def split: option.splits)
qed

section \<open>The building claim, and concrete runs\<close>

lemma predio_labels:
  "map (unit_label ''predio'') [1..5] = [''Apto 01'', ''Apto 02'', ''Apto 03'', ''Apto 04'', ''Apto 05'']"
  by code_simp

lemma Unidade_init_raises: "Unidade_init a b c d = Raises TypeError"
  by (simp add: Unidade_init_def BaseModel_init_def)

lemma rows_to_unidades_raises: "rows \<noteq> [] \<Longrightarrow> rows_to_unidades rows = Raises TypeError"
  by (cases rows) (simp_all add: Unidade_from_db_row_def Unidade_init_raises)

text \<open>
  C1 does not hold of the code. \<open>Imovel.__init__\<close> and \<open>Unidade.__init__\<close> pass
  \<open>id\<close> positionally to \<open>BaseModel.__init__\<close>, which takes keywords only, so
  building either object raises \<open>TypeError\<close>. For a building object with five units
  that passes validation and whose insert the driver accepts, \<open>save\<close> stores the
  Imovel row and then raises \<open>TypeError\<close> at the first unit of \<open>_criar_unidades\<close>:
  it does not return, and no unit row is written. \<open>get_by_imovel\<close> raises as soon as
  the query yields a row. The labels the loop formats are \<open>Apto 01\<close> to \<open>Apto 05\<close>.
\<close>

theorem building_save_raises_type_error:
  assumes new: "im_id i = None" and kind: "im_tipo i = ''predio''"
    and five: "im_total_unidades i = Some 5"
    and valid: "Imovel_validate vrf i = []"
    and ins: "\<not> rejects (InsertImovel i)"
    and sel: "\<not> rejects (SelectUnidadesByImovel pid)"
    and stored: "\<exists>r\<in>set (unidades db2). un_imovel_id r = Some pid"
  shows "Imovel_init None rua_id numero ''predio'' nome (Some 5) portaria acesso obs = Raises TypeError
       \<and> Imovel_save rejects vrf i db
           = (Raises TypeError, i\<lparr>im_id := Some (next_id (map im_id (imoveis db)))\<rparr>,
              db\<lparr>imoveis := imoveis db @ [i\<lparr>im_id := Some (next_id (map im_id (imoveis db)))\<rparr>]\<rparr>)
       \<and> unidades (snd (snd (Imovel_save rejects vrf i db))) = unidades db
       \<and> map (unit_label (im_tipo i)) [1..5]
           = [''Apto 01'', ''Apto 02'', ''Apto 03'', ''Apto 04'', ''Apto 05'']
       \<and> get_by_imovel rejects pid db2 = Raises TypeError"
proof -
  have up: "[1..5] = 1 # [2..5]" by (simp add: upto_rec1)
  have init: "Imovel_init None rua_id numero ''predio'' nome (Some 5) portaria acesso obs = Raises TypeError"
    by (simp add: Imovel_init_def BaseModel_init_def)
  have save: "Imovel_save rejects vrf i db =
      (Raises TypeError, i\<lparr>im_id := Some (next_id (map im_id (imoveis db)))\<rparr>,
       db\<lparr>imoveis := imoveis db @ [i\<lparr>im_id := Some (next_id (map im_id (imoveis db)))\<rparr>]\<rparr>)"
    using new kind five valid ins
    by (simp add: Imovel_save_def execute_def Let_def criar_unidades_def up Unidade_init_raises)
  have labels: "map (unit_label (im_tipo i)) [1..5]
           = [''Apto 01'', ''Apto 02'', ''Apto 03'', ''Apto 04'', ''Apto 05'']"
    unfolding kind by (rule predio_labels)
  have rows: "filter (\<lambda>r. un_imovel_id r = Some pid) (unidades db2) \<noteq> []"
    using stored by (simp add: filter_empty_conv)
  then have "sort_key un_numero (filter (\<lambda>r. un_imovel_id r = Some pid) (unidades db2)) \<noteq> []"
    by (metis length_sort list.size(3) length_0_conv)
  then have get: "get_by_imovel rejects pid db2 = Raises TypeError"
    using sel by (simp add: get_by_imovel_def fetch_unidades_def rows_to_unidades_raises)
  show ?thesis
    unfolding save using init labels get by simp
qed

theorem building_save_raises_type_error_witness:
  "Imovel_init None (Some 1) ''127'' ''predio'' (Some ''Edificio Central'') (Some 5) None None None
     = Raises TypeError
   \<and> Imovel_save accepts_all validate_required_fields edificio_central empty_database
     = (Raises TypeError, edificio_central\<lparr>im_id := Some 1\<rparr>,
        empty_database\<lparr>imoveis := [edificio_central\<lparr>im_id := Some 1\<rparr>]\<rparr>)
   \<and> unidades (snd (snd (Imovel_save accepts_all validate_required_fields edificio_central empty_database))) = []
   \<and> unit_label ''predio'' 1 = ''Apto 01''
   \<and> unit_label ''predio'' 1 \<noteq> ''Apt 01''
   \<and> get_by_imovel accepts_all 1 five_units_db = Raises TypeError"
proof -
  have h1: "im_id edificio_central = None" "im_tipo edificio_central = ''predio''"
    "im_total_unidades edificio_central = Some 5"
    by (simp_all add: edificio_central_def)
  have h2: "Imovel_validate validate_required_fields edificio_central = []"
    by code_simp
  have h3: "\<not> accepts_all (InsertImovel edificio_central)" "\<not> accepts_all (SelectUnidadesByImovel 1)"
    by (simp_all add: accepts_all_def)
  have h4: "\<exists>r\<in>set (unidades five_units_db). un_imovel_id r = Some 1"
    by (simp add: five_units_db_def empty_database_def)
  note t = building_save_raises_type_error[OF h1 h2 h3 h4, of "Some 1" "''127''"
      "Some ''Edificio Central''" None None None empty_database]
  have n: "next_id (map im_id (imoveis empty_database)) = 1"
    by code_simp
  have u: "unidades empty_database = []"
    by (simp add: empty_database_def)
  have l: "unit_label ''predio'' 1 = ''Apto 01''" "unit_label ''predio'' 1 \<noteq> ''Apt 01''"
    by code_simp+
  show ?thesis
    using t l unfolding n u by (simp add: empty_database_def)
qed

theorem invalid_entity_is_not_saved_witness:
  "Imovel_save accepts_all validate_required_fields imovel_sem_unidades empty_database
     = (Returned False, imovel_sem_unidades, empty_database)
   \<and> Usuario_save accepts_all validate_required_fields usuario_sem_arroba one_user_db
     = (Returned False, usuario_sem_arroba, one_user_db)
   \<and> Atendimento_save accepts_all validate_required_fields atendimento_talvez empty_database
     = (False, atendimento_talvez, empty_database)
   \<and> Designacao_save accepts_all validate_required_fields designacao_pausada one_designacao_db
     = (False, designacao_pausada, one_designacao_db)"
proof -
  have h: "Imovel_validate validate_required_fields imovel_sem_unidades \<noteq> []"
    "Usuario_validate validate_required_fields usuario_sem_arroba \<noteq> []"
    "Atendimento_validate validate_required_fields atendimento_talvez \<noteq> []"
    "Designacao_validate validate_required_fields designacao_pausada \<noteq> []"
    by code_simp+
  show ?thesis
    using invalid_entity_is_not_saved[of validate_required_fields imovel_sem_unidades accepts_all
        empty_database usuario_sem_arroba atendimento_talvez designacao_pausada]
      invalid_entity_is_not_saved[of validate_required_fields imovel_sem_unidades accepts_all
        one_user_db usuario_sem_arroba atendimento_talvez designacao_pausada]
      invalid_entity_is_not_saved[of validate_required_fields imovel_sem_unidades accepts_all
        one_designacao_db usuario_sem_arroba atendimento_talvez designacao_pausada]
      h by blast
qed

theorem concluir_idempotent_witness:
  "concluir accepts_all designacao_ativa one_designacao_db
     = (True, designacao_ativa\<lparr>de_status := ''concluido''\<rparr>,
        empty_database\<lparr>designacoes := [designacao_ativa\<lparr>de_status := ''concluido''\<rparr>]\<rparr>)
   \<and> concluir accepts_all (fst (snd (concluir accepts_all designacao_ativa one_designacao_db)))
        (snd (snd (concluir accepts_all designacao_ativa one_designacao_db)))
     = (True, fst (snd (concluir accepts_all designacao_ativa one_designacao_db)),
        snd (snd (concluir accepts_all designacao_ativa one_designacao_db)))
   \<and> valid_statuses (snd (snd (concluir accepts_all designacao_ativa one_designacao_db)))"
proof -
  have h: "de_id designacao_ativa = Some 1" "\<not> accepts_all (ConcluirDesignacao 1)"
    by (simp_all add: designacao_ativa_def accepts_all_def)
  have v: "valid_statuses one_designacao_db" by code_simp
  have e: "concluir accepts_all designacao_ativa one_designacao_db
     = (True, designacao_ativa\<lparr>de_status := ''concluido''\<rparr>,
        empty_database\<lparr>designacoes := [designacao_ativa\<lparr>de_status := ''concluido''\<rparr>]\<rparr>)"
    by code_simp
  show ?thesis
    using concluir_idempotent[where ?rejects1.0 = accepts_all and ?rejects2.0 = accepts_all
        and d = designacao_ativa and k = 1 and db = one_designacao_db
        and vrf = validate_required_fields, OF h(1) h(2) h(2)] v e
    by blast
qed

text \<open>C8 as stated fails: when the driver rejects the update, \<open>concluir\<close> returns
  \<open>False\<close> (the object's status is set all the same).\<close>

theorem concluir_counterexample:
  "concluir rejects_all designacao_ativa one_designacao_db
     = (False, designacao_ativa\<lparr>de_status := ''concluido''\<rparr>, one_designacao_db)"
  by code_simp

theorem Usuario_save_raises_when_email_held_witness:
  "Usuario_save accepts_all validate_required_fields outra_maria one_user_db
     = (Raises TypeError, outra_maria, one_user_db)
   \<and> us_id outra_maria = None
   \<and> map us_email (usuarios one_user_db) = [us_email outra_maria]
   \<and> Usuario_save accepts_all validate_required_fields maria one_user_db
     = (Raises TypeError, maria, one_user_db)"
proof -
  have v: "Usuario_validate validate_required_fields outra_maria = []"
    "Usuario_validate validate_required_fields maria = []"
    by code_simp+
  have ok: "\<not> accepts_all (SelectUsuarioByEmail (us_email outra_maria))"
    "\<not> accepts_all (SelectUsuarioByEmail (us_email maria))"
    by (simp_all add: accepts_all_def)
  have held: "\<exists>r\<in>set (usuarios one_user_db). us_email r = us_email outra_maria"
    "\<exists>r\<in>set (usuarios one_user_db). us_email r = us_email maria"
    by (simp_all add: one_user_db_def empty_database_def outra_maria_def maria_def)
  have e: "us_id outra_maria = None" "map us_email (usuarios one_user_db) = [us_email outra_maria]"
    by (simp_all add: one_user_db_def empty_database_def outra_maria_def maria_def)
  show ?thesis
    using Usuario_save_raises_when_email_held[where rejects = accepts_all, OF v(1) ok(1) held(1)]
      Usuario_save_raises_when_email_held[where rejects = accepts_all, OF v(2) ok(2) held(2)] e
    by simp
qed

text \<open>When the driver rejects the lookup, \<open>get_by_email\<close> answers \<open>None\<close> and a
  second user with a stored address is inserted.\<close>

lemma Usuario_save_duplicate_when_lookup_rejected:
  "fst (Usuario_save lookup_rejected validate_required_fields outra_maria one_user_db) = Returned True
   \<and> map us_email (usuarios (snd (snd (Usuario_save lookup_rejected validate_required_fields outra_maria one_user_db))))
       = [''maria@sistema.local'', ''maria@sistema.local'']
   \<and> distinct (map us_email (usuarios one_user_db))"
  by code_simp

text \<open>The stand-in key derivation on the sample hashes.\<close>

lemma maria_hash_verifies:
  "AuthService_verificar_senha sample_kdf ''segredo'' (Some ''ab:ab02010202010201'')"
  by (simp add: AuthService_verificar_senha_def verify_body_def sample_kdf_def hexval_def
        is_space_def Let_def)

lemma maria_blank_hash_verifies:
  "AuthService_verificar_senha sample_kdf ''segredo'' (Some ''ab :ab02010202010201'')"
  by (simp add: AuthService_verificar_senha_def verify_body_def sample_kdf_def hexval_def
        is_space_def Let_def)

lemma maria_wrong_password:
  "\<not> AuthService_verificar_senha sample_kdf ''errada'' (Some ''ab:ab02010202010201'')"
  by (simp add: AuthService_verificar_senha_def verify_body_def sample_kdf_def hexval_def
        is_space_def Let_def)

lemmas auth_run = authenticate_def fetch_usuarios_def one_user_db_def maria_def
  maria_blank_after_salt_def empty_database_def accepts_all_def rejects_all_def criar_sessao_def
  registrar_login_def execute_def verificar_senha_def Let_def

theorem authenticate_exactly_when_credentials_match_witness:
  "authenticate accepts_all sample_kdf (criar_sessao accepts_all ''t0k3n'' ''2024-01-13 10:30:00'')
       ''maria@sistema.local'' ''errada'' one_user_db = ((False, None), one_user_db)
   \<and> fst (authenticate accepts_all sample_kdf (criar_sessao accepts_all ''t0k3n'' ''2024-01-13 10:30:00'')
       ''maria@sistema.local'' ''segredo'' one_user_db) = (True, Some (maria, ''t0k3n''))"
proof -
  have h: "\<not> accepts_all (SelectUsuarioAtivoByEmail ''maria@sistema.local'')"
    "distinct (map us_email (usuarios one_user_db))"
    by (simp_all add: one_user_db_def accepts_all_def)
  have w: "\<not> fst (fst (authenticate accepts_all sample_kdf
       (criar_sessao accepts_all ''t0k3n'' ''2024-01-13 10:30:00'')
       ''maria@sistema.local'' ''errada'' one_user_db))"
    using maria_wrong_password by (simp add: auth_run)
  have r: "fst (authenticate accepts_all sample_kdf (criar_sessao accepts_all ''t0k3n'' ''2024-01-13 10:30:00'')
       ''maria@sistema.local'' ''segredo'' one_user_db) = (True, Some (maria, ''t0k3n''))"
    using maria_hash_verifies by (simp add: auth_run)
  show ?thesis
    using authenticate_exactly_when_credentials_match[where rejects = accepts_all
        and email = "''maria@sistema.local''" and db = one_user_db and kdf = sample_kdf
        and cs = "criar_sessao accepts_all ''t0k3n'' ''2024-01-13 10:30:00''"
        and senha = "''errada''", OF h] w r
    by blast
qed

text \<open>C3 as stated fails: an active user with the right password is refused when the
  driver rejects the lookup.\<close>

theorem authenticate_counterexample:
  "us_email maria = ''maria@sistema.local'' \<and> us_ativo maria
   \<and> AuthService_verificar_senha sample_kdf ''segredo'' (us_senha_hash maria)
   \<and> authenticate rejects_all sample_kdf (criar_sessao rejects_all ''t0k3n'' ''2024-01-13 10:30:00'')
       ''maria@sistema.local'' ''segredo'' one_user_db = ((False, None), one_user_db)"
  using maria_hash_verifies by (simp add: auth_run)

text \<open>C9 as stated fails: a stored hash with a blank, which is not a hexadecimal
  digit, is verified.\<close>

theorem verificar_senha_counterexample:
  "hexval CHR '' '' = None
   \<and> verificar_senha sample_kdf maria_blank_after_salt ''segredo''
   \<and> AuthService_verificar_senha sample_kdf ''segredo'' (us_senha_hash maria_blank_after_salt)
   \<and> us_senha_hash maria_blank_after_salt = Some ''ab :ab02010202010201''"
proof -
  have v: "verify_body sample_kdf ''segredo'' ''ab :ab02010202010201''"
    using maria_blank_hash_verifies by (simp add: AuthService_verificar_senha_def)
  show ?thesis
    using maria_blank_hash_verifies v
    by (simp add: verificar_senha_def maria_blank_after_salt_def maria_def hexval_def)
qed

end
